theory Spec2Isabelle
  imports Complex_Main
begin

section \<open>Data model\<close>

text \<open>
  The front end works on plain JavaScript objects. A bounding box is
  \<^verbatim>\<open>{x, y, width, height}\<close>, a detection is
  \<^verbatim>\<open>{class, confidence, bbox}\<close>. JavaScript numbers are modelled by
  \<^typ>\<open>real\<close> (the rounding of IEEE doubles is left out), counters by \<^typ>\<open>nat\<close>,
  class labels by \<^typ>\<open>string\<close>.
\<close>

record bbox =
  bbox_x :: real
  bbox_y :: real
  bbox_width :: real
  bbox_height :: real

record detection =
  det_class :: string
  confidence :: real
  det_bbox :: bbox

text \<open>The per-image counts of \<^verbatim>\<open>script_with_api.js\<close> (\<^verbatim>\<open>stats\<close>, snake case keys).\<close>

record stats =
  with_mask :: nat
  without_mask :: nat
  mask_weared_incorrect :: nat

text \<open>The batch and session counts (\<^verbatim>\<open>totalStats\<close>, camel case keys).\<close>

record totals =
  withMask :: nat
  withoutMask :: nat
  incorrectMask :: nat

text \<open>A decoded image (\<^verbatim>\<open>img.width\<close>, \<^verbatim>\<open>img.height\<close>).\<close>

record image =
  img_width :: nat
  img_height :: nat

text \<open>
  An uploaded or captured \<^verbatim>\<open>File\<close>. \<open>file_image\<close> is the image the
  browser decodes from the file's bytes, \<open>None\<close> when the bytes do not decode (then
  \<^verbatim>\<open>img.onload\<close> never fires).
\<close>

record js_file =
  file_name :: string
  file_type :: string
  file_image :: "image option"

section \<open>Decimal text\<close>

definition digitChar :: "nat \<Rightarrow> char" where
  "digitChar d = ''0123456789'' ! d"

text \<open>The decimal text of a non-negative integer, as a template literal prints it.\<close>

function showNat :: "nat \<Rightarrow> string" where
  "showNat n = (if n < 10 then [digitChar n] else showNat (n div 10) @ [digitChar (n mod 10)])"
  by pat_completeness auto
termination
  by (relation "measure (\<lambda>n. n)") auto

declare showNat.simps [simp del]

text \<open>
  \<^verbatim>\<open>v.toFixed(1)\<close>: the integer \<open>n\<close> with \<open>n / 10\<close> nearest to \<open>|v|\<close>,
  the larger one on a tie, printed with one digit after the point and a minus sign for
  a negative \<open>v\<close>. (The exponent form of values from \<open>10\<^sup>2\<^sup>1\<close> on is left out.)
\<close>

definition toFixed1 :: "real \<Rightarrow> string" where
  "toFixed1 v =
     (let n = nat \<lfloor>\<bar>v\<bar> * 10 + 1 / 2\<rfloor>
      in (if v < 0 then ''-'' else '''') @ showNat (n div 10) @ ''.'' @ showNat (n mod 10))"

text \<open>\<^verbatim>\<open>s.replace(a, b)\<close> with a string pattern replaces the first occurrence only.\<close>

fun replaceFirst :: "char \<Rightarrow> char \<Rightarrow> string \<Rightarrow> string" where
  "replaceFirst a b [] = []"
| "replaceFirst a b (c # cs) = (if c = a then b # cs else c # replaceFirst a b cs)"

section \<open>The synthetic detector\<close>

text \<open>
  \<^verbatim>\<open>Math.random()\<close> is modelled by the sequence of values it returns during one
  call of the detector: \<open>rnd i\<close> is the \<open>i\<close>-th value drawn. The browser returns values
  in \<open>[0, 1)\<close>; the theorems below assume exactly that of \<open>rnd\<close>.
\<close>

type_synonym rng = "nat \<Rightarrow> real"

definition unitRange :: "rng \<Rightarrow> bool" where
  "unitRange rnd = (\<forall>i. 0 \<le> rnd i \<and> rnd i < 1)"

definition classes :: "string list" where
  "classes = [''with_mask'', ''without_mask'', ''mask_weared_incorrect'']"

text \<open>
  One pass of the loop body of \<^verbatim>\<open>simulateYOLODetection\<close> in
  \<^verbatim>\<open>script_with_api.js\<close>; it draws six values, starting at position \<open>p\<close>, in
  the order the object literal evaluates them.
\<close>

definition randomDetection :: "rng \<Rightarrow> image \<Rightarrow> nat \<Rightarrow> detection" where
  "randomDetection rnd img p =
     \<lparr>det_class = classes ! nat \<lfloor>rnd p * real (length classes)\<rfloor>,
      confidence = 0.5 + rnd (p + 1) * 0.5,
      det_bbox =
        \<lparr>bbox_x = rnd (p + 2) * real (img_width img) * 0.5,
         bbox_y = rnd (p + 3) * real (img_height img) * 0.5,
         bbox_width = real (img_width img) * 0.1 + rnd (p + 4) * real (img_width img) * 0.3,
         bbox_height = real (img_height img) * 0.1 + rnd (p + 5) * real (img_height img) * 0.3\<rparr>\<rparr>"

fun simulateLoop :: "rng \<Rightarrow> image \<Rightarrow> nat \<Rightarrow> nat \<Rightarrow> detection list" where
  "simulateLoop rnd img 0 p = []"
| "simulateLoop rnd img (Suc n) p = randomDetection rnd img p # simulateLoop rnd img n (p + 6)"

definition simulateYOLODetection :: "rng \<Rightarrow> image \<Rightarrow> detection list" where
  "simulateYOLODetection rnd img =
     (let numDetections = nat \<lfloor>rnd 0 * 4\<rfloor> + 1
      in simulateLoop rnd img numDetections 1)"

text \<open>
  The same function in \<^verbatim>\<open>script.js\<close>: the box extents start at \<open>0.2\<close> of the
  image dimension instead of \<open>0.1\<close>.
\<close>

definition randomDetection_script :: "rng \<Rightarrow> image \<Rightarrow> nat \<Rightarrow> detection" where
  "randomDetection_script rnd img p =
     \<lparr>det_class = classes ! nat \<lfloor>rnd p * real (length classes)\<rfloor>,
      confidence = 0.5 + rnd (p + 1) * 0.5,
      det_bbox =
        \<lparr>bbox_x = rnd (p + 2) * real (img_width img) * 0.5,
         bbox_y = rnd (p + 3) * real (img_height img) * 0.5,
         bbox_width = real (img_width img) * 0.2 + rnd (p + 4) * real (img_width img) * 0.3,
         bbox_height = real (img_height img) * 0.2 + rnd (p + 5) * real (img_height img) * 0.3\<rparr>\<rparr>"

fun simulateLoop_script :: "rng \<Rightarrow> image \<Rightarrow> nat \<Rightarrow> nat \<Rightarrow> detection list" where
  "simulateLoop_script rnd img 0 p = []"
| "simulateLoop_script rnd img (Suc n) p =
     randomDetection_script rnd img p # simulateLoop_script rnd img n (p + 6)"

definition simulateYOLODetection_script :: "rng \<Rightarrow> image \<Rightarrow> detection list" where
  "simulateYOLODetection_script rnd img =
     (let numDetections = nat \<lfloor>rnd 0 * 4\<rfloor> + 1
      in simulateLoop_script rnd img numDetections 1)"

section \<open>Counting detections by class\<close>

text \<open>
  The \<^verbatim>\<open>switch\<close> of \<^verbatim>\<open>calculateStatsFromDetections\<close> has three cases and no
  \<^verbatim>\<open>default\<close>: a label that matches none of them leaves \<^verbatim>\<open>stats\<close> as it is.
\<close>

definition countDetection :: "detection \<Rightarrow> stats \<Rightarrow> stats" where
  "countDetection d s =
     (if det_class d = ''with_mask'' then s\<lparr>with_mask := with_mask s + 1\<rparr>
      else if det_class d = ''without_mask'' then s\<lparr>without_mask := without_mask s + 1\<rparr>
      else if det_class d = ''mask_weared_incorrect''
        then s\<lparr>mask_weared_incorrect := mask_weared_incorrect s + 1\<rparr>
      else s)"

definition calculateStatsFromDetections :: "detection list \<Rightarrow> stats" where
  "calculateStatsFromDetections ds =
     fold countDetection ds \<lparr>with_mask = 0, without_mask = 0, mask_weared_incorrect = 0\<rparr>"

text \<open>
  \<^verbatim>\<open>calculateStats\<close> of \<^verbatim>\<open>script.js\<close> runs the same switch over the detections
  of every result of a batch; there a result is modelled by its list of detections.
\<close>

definition countDetection_script :: "detection \<Rightarrow> totals \<Rightarrow> totals" where
  "countDetection_script d s =
     (if det_class d = ''with_mask'' then s\<lparr>withMask := withMask s + 1\<rparr>
      else if det_class d = ''without_mask'' then s\<lparr>withoutMask := withoutMask s + 1\<rparr>
      else if det_class d = ''mask_weared_incorrect''
        then s\<lparr>incorrectMask := incorrectMask s + 1\<rparr>
      else s)"

definition calculateStats :: "detection list list \<Rightarrow> totals" where
  "calculateStats results =
     fold (\<lambda>result s. fold countDetection_script result s) results
       \<lparr>withMask = 0, withoutMask = 0, incorrectMask = 0\<rparr>"

text \<open>
  The number of detections whose label is none of the three known ones. No function of
  the source computes it; it is the quantity the specification calls
  \<^verbatim>\<open>unknownCount\<close>.
\<close>

definition unknownCount :: "detection list \<Rightarrow> nat" where
  "unknownCount ds = length (filter (\<lambda>d. det_class d \<notin> set classes) ds)"

section \<open>The canvas and the annotator\<close>

text \<open>
  A 2D canvas is modelled by its size, the drawing state the code sets
  (\<^verbatim>\<open>strokeStyle\<close>, \<^verbatim>\<open>lineWidth\<close>, \<^verbatim>\<open>font\<close>, \<^verbatim>\<open>fillStyle\<close>) and the
  list of primitives painted so far, each with the style it was painted in.
\<close>

datatype paint =
  PaintImage image real real
| PaintImageRegion image real real real real real real real real
| PaintStrokeRect real real real real string real
| PaintFillRect real real real real string
| PaintFillText string real real string string

record canvas =
  cv_width :: nat
  cv_height :: nat
  strokeStyle :: string
  lineWidth :: real
  font :: string
  fillStyle :: string
  painted :: "paint list"

text \<open>A fresh canvas of a given size, with the drawing state a new context starts in.\<close>

definition newCanvas :: "nat \<Rightarrow> nat \<Rightarrow> canvas" where
  "newCanvas w h =
     \<lparr>cv_width = w, cv_height = h, strokeStyle = ''#000000'', lineWidth = 1,
      font = ''10px sans-serif'', fillStyle = ''#000000'', painted = []\<rparr>"

definition drawImage :: "canvas \<Rightarrow> image \<Rightarrow> real \<Rightarrow> real \<Rightarrow> canvas" where
  "drawImage ctx img dx dy = ctx\<lparr>painted := painted ctx @ [PaintImage img dx dy]\<rparr>"

text \<open>
  The call of \<^verbatim>\<open>drawImage\<close> with nine arguments: the source rectangle
  \<open>(sx, sy, sw, sh)\<close> of the image is to be painted onto the rectangle
  \<open>(dx, dy, dw, dh)\<close> of the canvas. The primitive records the request as the code
  makes it; what the browser paints for it is not part of the model.
\<close>

definition drawImageRegion ::
  "canvas \<Rightarrow> image \<Rightarrow> real \<Rightarrow> real \<Rightarrow> real \<Rightarrow> real \<Rightarrow> real \<Rightarrow> real \<Rightarrow> real \<Rightarrow> real \<Rightarrow> canvas" where
  "drawImageRegion ctx img sx sy sw sh dx dy dw dh =
     ctx\<lparr>painted := painted ctx @ [PaintImageRegion img sx sy sw sh dx dy dw dh]\<rparr>"

definition strokeRect :: "canvas \<Rightarrow> real \<Rightarrow> real \<Rightarrow> real \<Rightarrow> real \<Rightarrow> canvas" where
  "strokeRect ctx rx ry rw rh =
     ctx\<lparr>painted := painted ctx @ [PaintStrokeRect rx ry rw rh (strokeStyle ctx) (lineWidth ctx)]\<rparr>"

definition fillRect :: "canvas \<Rightarrow> real \<Rightarrow> real \<Rightarrow> real \<Rightarrow> real \<Rightarrow> canvas" where
  "fillRect ctx rx ry rw rh =
     ctx\<lparr>painted := painted ctx @ [PaintFillRect rx ry rw rh (fillStyle ctx)]\<rparr>"

definition fillText :: "canvas \<Rightarrow> string \<Rightarrow> real \<Rightarrow> real \<Rightarrow> canvas" where
  "fillText ctx txt tx ty =
     ctx\<lparr>painted := painted ctx @ [PaintFillText txt tx ty (font ctx) (fillStyle ctx)]\<rparr>"

text \<open>
  What the page's code takes from the browser and the source does not contain: the
  encoder behind \<^verbatim>\<open>canvas.toDataURL()\<close> and the text metrics behind
  \<^verbatim>\<open>ctx.measureText(label).width\<close> (a function of the font and the text).
\<close>

record browser =
  toDataURL :: "canvas \<Rightarrow> string"
  measureText :: "string \<Rightarrow> string \<Rightarrow> real"

definition colors :: "(string \<times> string) list" where
  "colors =
     [(''with_mask'', ''#38a169''),
      (''without_mask'', ''#e53e3e''),
      (''mask_weared_incorrect'', ''#d69e2e'')]"

text \<open>
  A value read from the object \<^verbatim>\<open>colors\<close>: one of its strings, or something
  that is not a string (a function or an object).
\<close>

datatype js_value = Str string | Obj

text \<open>
  \<^verbatim>\<open>colors\<close> is a plain object, so besides its three own keys it answers to
  the keys every object inherits from \<^verbatim>\<open>Object.prototype\<close>; what it gives
  for those is a function, or for \<^verbatim>\<open>__proto__\<close> an object.
\<close>

definition objectPrototypeKeys :: "string list" where
  "objectPrototypeKeys =
     [''constructor'', ''toString'', ''toLocaleString'', ''valueOf'', ''hasOwnProperty'',
      ''isPrototypeOf'', ''propertyIsEnumerable'', ''__proto__'', ''__defineGetter__'',
      ''__defineSetter__'', ''__lookupGetter__'', ''__lookupSetter__'']"

text \<open>\<^verbatim>\<open>colors[key]\<close>; \<open>None\<close> is \<^verbatim>\<open>undefined\<close>.\<close>

definition colorsLookup :: "string \<Rightarrow> js_value option" where
  "colorsLookup key =
     (case map_of colors key of
        Some c \<Rightarrow> Some (Str c)
      | None \<Rightarrow> if key \<in> set objectPrototypeKeys then Some Obj else None)"

text \<open>
  \<^verbatim>\<open>colors[detection.class] || '#4a5568'\<close>: the default is taken when the
  lookup gives \<^verbatim>\<open>undefined\<close> (or an empty string, which none of the entries
  is).
\<close>

definition colorOf :: "string \<Rightarrow> js_value" where
  "colorOf cls =
     (case colorsLookup cls of
        Some v \<Rightarrow> if v = Str [] then Str ''#4a5568'' else v
      | None \<Rightarrow> Str ''#4a5568'')"

text \<open>
  \<^verbatim>\<open>ctx.strokeStyle = v\<close> and \<^verbatim>\<open>ctx.fillStyle = v\<close>: a colour string
  becomes the style (every string the code assigns is a valid colour); a value that is
  not a colour is ignored and the style stays \<open>old\<close>.
\<close>

definition styleSet :: "string \<Rightarrow> js_value \<Rightarrow> string" where
  "styleSet old v = (case v of Str c \<Rightarrow> c | Obj \<Rightarrow> old)"

definition labelOf :: "detection \<Rightarrow> string" where
  "labelOf d =
     replaceFirst CHR ''_'' CHR '' '' (det_class d) @ '' '' @ toFixed1 (confidence d * 100) @ ''%''"

definition drawBoundingBox :: "browser \<Rightarrow> canvas \<Rightarrow> detection \<Rightarrow> canvas" where
  "drawBoundingBox br ctx d =
     (let color = colorOf (det_class d);
          b = det_bbox d;
          ctx1 = ctx\<lparr>strokeStyle := styleSet (strokeStyle ctx) color\<rparr>;
          ctx2 = ctx1\<lparr>lineWidth := 3\<rparr>;
          ctx3 = strokeRect ctx2 (bbox_x b) (bbox_y b) (bbox_width b) (bbox_height b);
          label = labelOf d;
          ctx4 = ctx3\<lparr>font := ''14px Arial''\<rparr>;
          textWidth = measureText br (font ctx4) label;
          ctx5 = ctx4\<lparr>fillStyle := styleSet (fillStyle ctx4) color\<rparr>;
          ctx6 = fillRect ctx5 (bbox_x b) (bbox_y b - 25) (textWidth + 10) 25;
          ctx7 = ctx6\<lparr>fillStyle := styleSet (fillStyle ctx6) (Str ''white'')\<rparr>
      in fillText ctx7 label (bbox_x b + 5) (bbox_y b - 8))"

section \<open>Cropped faces\<close>

text \<open>
  \<^verbatim>\<open>canvas.width = v\<close> with a number \<open>v\<close>: the size of a canvas is a whole
  number, the fraction of \<open>v\<close> is dropped. (Box extents are not negative in any
  detection the code makes; for a negative \<open>v\<close> the model gives \<open>0\<close>.)
\<close>

definition canvasLength :: "real \<Rightarrow> nat" where
  "canvasLength v = nat \<lfloor>v\<rfloor>"

text \<open>
  The canvas \<^verbatim>\<open>createCroppedFaces\<close> of \<^verbatim>\<open>script.js\<close> makes for one
  detection: it gets the width and the height of the box, and one \<^verbatim>\<open>drawImage\<close>
  is asked for the box as source rectangle. The code compares the box with the image
  nowhere.
\<close>

definition cropCanvas :: "image \<Rightarrow> detection \<Rightarrow> canvas" where
  "cropCanvas img detection =
     (let bbox = det_bbox detection;
          canvas = newCanvas (canvasLength (bbox_width bbox)) (canvasLength (bbox_height bbox))
      in drawImageRegion canvas img (bbox_x bbox) (bbox_y bbox) (bbox_width bbox) (bbox_height bbox)
           0 0 (bbox_width bbox) (bbox_height bbox))"

text \<open>
  One block of the HTML the function returns: the class of the \<^verbatim>\<open>div\<close> after
  \<^verbatim>\<open>cropped-face\<close>, the \<^verbatim>\<open>src\<close> and the \<^verbatim>\<open>alt\<close> of the image and
  the text of the confidence badge. The markup around them is left out.
\<close>

record face_crop =
  fc_class :: string
  fc_src :: string
  fc_alt :: string
  fc_badge :: string

fun croppedFacesFrom :: "browser \<Rightarrow> image \<Rightarrow> nat \<Rightarrow> detection list \<Rightarrow> face_crop list" where
  "croppedFacesFrom br img index [] = []"
| "croppedFacesFrom br img index (detection # rest) =
     \<lparr>fc_class = replaceFirst CHR ''_'' CHR ''-'' (det_class detection),
      fc_src = toDataURL br (cropCanvas img detection),
      fc_alt = ''Face '' @ showNat (index + 1),
      fc_badge = toFixed1 (confidence detection * 100) @ ''%''\<rparr>
     # croppedFacesFrom br img (index + 1) rest"

definition createCroppedFaces :: "browser \<Rightarrow> image \<Rightarrow> detection list \<Rightarrow> face_crop list" where
  "createCroppedFaces br img detections = croppedFacesFrom br img 0 detections"

text \<open>
  The region the specification asks of the crop: the box clipped to the bounds of the
  image. No function of the source computes it.
\<close>

definition clippedRegion :: "image \<Rightarrow> bbox \<Rightarrow> bbox" where
  "clippedRegion img b =
     (let left = max 0 (bbox_x b);
          top = max 0 (bbox_y b);
          right = min (real (img_width img)) (bbox_x b + bbox_width b);
          bottom = min (real (img_height img)) (bbox_y b + bbox_height b)
      in \<lparr>bbox_x = left, bbox_y = top,
          bbox_width = max 0 (right - left), bbox_height = max 0 (bottom - top)\<rparr>)"

section \<open>The detection client\<close>

text \<open>
  The object both paths of the client return:
  \<^verbatim>\<open>{file, detections, stats, resultImage, totalDetections}\<close>. On the service path
  four of the fields are copied from the response body and are \<^verbatim>\<open>undefined\<close>
  (\<open>None\<close>) when the body does not have them. A count missing inside
  \<^verbatim>\<open>stats\<close> reads as \<open>0\<close> in every consumer (\<^verbatim>\<open>|| 0\<close>) and is modelled by
  \<open>0\<close>.
\<close>

record result =
  r_file :: js_file
  r_detections :: "detection list option"
  r_stats :: "stats option"
  r_resultImage :: "string option"
  r_totalDetections :: "nat option"

text \<open>
  The JSON body of a \<^verbatim>\<open>/detect\<close> response. \<open>d_success\<close> is the truthiness
  of \<^verbatim>\<open>data.success\<close> (false when the field is missing).
\<close>

record api_data =
  d_success :: bool
  d_error :: "string option"
  d_detections :: "detection list option"
  d_stats :: "stats option"
  d_result_image :: "string option"
  d_total_detections :: "nat option"

text \<open>
  An HTTP response: \<^verbatim>\<open>response.ok\<close>, \<^verbatim>\<open>response.status\<close> and what
  \<^verbatim>\<open>await response.json()\<close> gives, \<open>None\<close> when the body is not a JSON object
  (the call rejects, or reading \<^verbatim>\<open>data.success\<close> throws).
\<close>

record response =
  resp_ok :: bool
  resp_status :: nat
  resp_json :: "api_data option"

text \<open>What \<^verbatim>\<open>await fetch(...)\<close> does: it rejects, or it gives a response.\<close>

datatype fetch_result = NetworkError | Response response

datatype js_error = FetchFailed | JsonFailed | Error string | TypeError

text \<open>How a promise ends: with a value, with an error, or never.\<close>

datatype 'a promise = Resolved 'a | Rejected js_error | Pending

text \<open>
  \<^verbatim>\<open>processImageSimulation\<close>: the promise resolves inside \<^verbatim>\<open>img.onload\<close>;
  there is no \<^verbatim>\<open>onerror\<close> handler, so for a file that does not decode it stays
  pending.
\<close>

definition processImageSimulation :: "browser \<Rightarrow> rng \<Rightarrow> js_file \<Rightarrow> result promise" where
  "processImageSimulation br rnd f =
     (case file_image f of
        None \<Rightarrow> Pending
      | Some img \<Rightarrow>
          (let detections = simulateYOLODetection rnd img;
               stats = calculateStatsFromDetections detections;
               canvas = newCanvas (img_width img) (img_height img);
               ctx = drawImage canvas img 0 0;
               ctx' = fold (\<lambda>detection c. drawBoundingBox br c detection) detections ctx
           in Resolved
                \<lparr>r_file = f,
                 r_detections = Some detections,
                 r_stats = Some stats,
                 r_resultImage = Some (toDataURL br ctx'),
                 r_totalDetections = Some (length detections)\<rparr>))"

text \<open>
  The body of the \<^verbatim>\<open>try\<close> block of \<^verbatim>\<open>processImageWithAPI\<close>: \<open>Inl\<close> is
  the error thrown inside it, \<open>Inr\<close> the object returned.
\<close>

definition tryDetect :: "js_file \<Rightarrow> fetch_result \<Rightarrow> js_error + result" where
  "tryDetect f fr =
     (case fr of
        NetworkError \<Rightarrow> Inl FetchFailed
      | Response resp \<Rightarrow>
          if resp_ok resp then
            (case resp_json resp of
               None \<Rightarrow> Inl JsonFailed
             | Some data \<Rightarrow>
                 if d_success data then
                   Inr \<lparr>r_file = f,
                        r_detections = d_detections data,
                        r_stats = d_stats data,
                        r_resultImage = d_result_image data,
                        r_totalDetections = d_total_detections data\<rparr>
                 else
                   Inl (Error (case d_error data of
                                 None \<Rightarrow> ''Detection failed''
                               | Some e \<Rightarrow> if e = [] then ''Detection failed'' else e)))
          else Inl (Error (''Server error: '' @ showNat (resp_status resp))))"

text \<open>
  \<^verbatim>\<open>processImageWithAPI\<close>: the \<^verbatim>\<open>catch\<close> clause turns every error of the
  \<^verbatim>\<open>try\<close> block into a call of the simulation. \<open>fr\<close> is what the one
  \<^verbatim>\<open>fetch\<close> of this call does. (The wrapper that the end of the script puts
  around the function counts calls and times; it returns what the function returns
  and is left out.)
\<close>

definition processImageWithAPI ::
  "browser \<Rightarrow> rng \<Rightarrow> js_file \<Rightarrow> fetch_result \<Rightarrow> result promise" where
  "processImageWithAPI br rnd f fr =
     (case tryDetect f fr of
        Inr r \<Rightarrow> Resolved r
      | Inl e \<Rightarrow> processImageSimulation br rnd f)"

text \<open>The service call fails: the \<^verbatim>\<open>try\<close> block throws.\<close>

definition serviceFails :: "fetch_result \<Rightarrow> bool" where
  "serviceFails fr =
     (case fr of
        NetworkError \<Rightarrow> True
      | Response resp \<Rightarrow>
          \<not> resp_ok resp \<or>
          (case resp_json resp of None \<Rightarrow> True | Some data \<Rightarrow> \<not> d_success data))"

section \<open>The page state\<close>

text \<open>
  The globals of the script (\<^verbatim>\<open>totalStats\<close>, \<^verbatim>\<open>captureCount\<close>,
  \<^verbatim>\<open>monitoringActive\<close>, \<^verbatim>\<open>monitoringInterval\<close>, \<^verbatim>\<open>monitoringCountdown\<close>,
  \<^verbatim>\<open>currentStream\<close>), the two form controls the code reads, the timers the
  browser holds for the page, and a log of what the page does to the user.
\<close>

record export =
  ex_timestamp :: string
  ex_totalStats :: totals
  ex_captureCount :: nat
  ex_monitoringInterval :: string
  ex_soundAlerts :: bool

text \<open>
  The text put in the exported blob: the serialisation of the results object by
  \<^verbatim>\<open>JSON.stringify\<close> (kept abstract), or a text the code builds itself.
\<close>

datatype content = JsonText export | PlainText string

text \<open>
  \<open>DownloadBlob content type name\<close>: a blob is made from \<open>content\<close> with MIME type
  \<open>type\<close>, and a link to it with download name \<open>name\<close> is clicked; \<open>None\<close> is
  \<^verbatim>\<open>undefined\<close>.
\<close>

datatype effect =
  PlayAlertSound
| ShowAlert string string
| DownloadBlob "content option" "string option" "string option"

record page =
  totalStats :: totals
  captureCount :: nat
  monitoringActive :: bool
  monitoringInterval :: "nat option"
  monitoringCountdown :: "nat option"
  currentStream :: bool
  pendingStarts :: nat
  soundAlerts :: "bool option"
  intervalSelect :: "string option"
  nextCaptureTime :: string
  intervals :: "(nat \<times> int \<times> int) list"
  timeouts :: "int list"
  nextTimerId :: nat
  captureRequests :: nat
  alertBadge :: "(string \<times> string) option"
  effects :: "effect list"

text \<open>
  \<open>soundAlerts\<close> is the \<^verbatim>\<open>checked\<close> state of the element with that id and
  \<open>intervalSelect\<close> the \<^verbatim>\<open>value\<close> of the interval menu, \<open>None\<close> when the page
  has no such element. \<open>intervals\<close> holds the live \<^verbatim>\<open>setInterval\<close> timers of the
  countdown: the handle, and the variables \<^verbatim>\<open>countdown\<close> and
  \<^verbatim>\<open>intervalSeconds\<close> its callback closes over. \<open>timeouts\<close> holds the pending
  \<^verbatim>\<open>setTimeout\<close> calls of \<^verbatim>\<open>scheduleNextCapture\<close>, oldest first, each with its
  \<^verbatim>\<open>intervalSeconds\<close>. \<open>captureRequests\<close> counts the snapshots
  \<^verbatim>\<open>captureMonitoringPhoto\<close> has taken (its calls of \<^verbatim>\<open>canvas.toBlob\<close>).
  \<open>pendingStarts\<close> counts the calls of \<^verbatim>\<open>startMonitoring\<close> that wait for
  \<^verbatim>\<open>getUserMedia\<close>.
  \<open>alertBadge\<close> is the alert badge the document shows (message and type), if any;
  \<open>effects\<close> logs, in order, every alert shown, every alert sound asked for and every
  download.
\<close>

definition initialPage :: "bool option \<Rightarrow> string option \<Rightarrow> page" where
  "initialPage sa iv =
     \<lparr>totalStats = \<lparr>withMask = 0, withoutMask = 0, incorrectMask = 0\<rparr>,
      captureCount = 0,
      monitoringActive = False,
      monitoringInterval = None,
      monitoringCountdown = None,
      currentStream = False,
      pendingStarts = 0,
      soundAlerts = sa,
      intervalSelect = iv,
      nextCaptureTime = ''-'',
      intervals = [],
      timeouts = [],
      nextTimerId = 1,
      captureRequests = 0,
      alertBadge = None,
      effects = []\<rparr>"

text \<open>
  \<^verbatim>\<open>showAlert\<close> removes the badges the document has and adds the new one. (The
  timer that removes a badge after five seconds is left out.)
\<close>

definition showAlert :: "string \<Rightarrow> string \<Rightarrow> page \<Rightarrow> page" where
  "showAlert message type pg =
     pg\<lparr>alertBadge := Some (message, type), effects := effects pg @ [ShowAlert message type]\<rparr>"

definition playAlertSound :: "page \<Rightarrow> page" where
  "playAlertSound pg = pg\<lparr>effects := effects pg @ [PlayAlertSound]\<rparr>"

section \<open>The statistics aggregator\<close>

definition updateTotalStats :: "totals \<Rightarrow> page \<Rightarrow> page" where
  "updateTotalStats s pg =
     pg\<lparr>totalStats :=
          \<lparr>withMask = withMask (totalStats pg) + withMask s,
           withoutMask = withoutMask (totalStats pg) + withoutMask s,
           incorrectMask = incorrectMask (totalStats pg) + incorrectMask s\<rparr>\<rparr>"

text \<open>
  The loop the three display functions share:
  \<^verbatim>\<open>if (result.stats) { totalStats.withMask += result.stats.with_mask || 0; ... }\<close>.
\<close>

definition addResultStats :: "result \<Rightarrow> totals \<Rightarrow> totals" where
  "addResultStats r t =
     (case r_stats r of
        None \<Rightarrow> t
      | Some s \<Rightarrow>
          \<lparr>withMask = withMask t + with_mask s,
           withoutMask = withoutMask t + without_mask s,
           incorrectMask = incorrectMask t + mask_weared_incorrect s\<rparr>)"

definition batchStats :: "result list \<Rightarrow> totals" where
  "batchStats results =
     fold addResultStats results \<lparr>withMask = 0, withoutMask = 0, incorrectMask = 0\<rparr>"

text \<open>
  The three display functions, without the HTML they write. Upload mode: the sound and
  the alert are both inside one \<^verbatim>\<open>if\<close>, whose condition is
  \<^verbatim>\<open>totalStats.withoutMask > 0 && document.getElementById('soundAlerts')?.checked !== false\<close>.
\<close>

definition displayUploadResults :: "result list \<Rightarrow> page \<Rightarrow> page" where
  "displayUploadResults results pg =
     (let batch = batchStats results;
          pg1 = updateTotalStats batch pg
      in if withoutMask batch > 0 \<and> soundAlerts pg1 \<noteq> Some False then
           showAlert
             (''Warning: '' @ showNat (withoutMask batch) @ '' person(s) detected without mask!'')
             ''warning'' (playAlertSound pg1)
         else pg1)"

text \<open>Camera mode: only the sound depends on the checkbox.\<close>

definition displayCameraResults :: "result list \<Rightarrow> page \<Rightarrow> page" where
  "displayCameraResults results pg =
     (let batch = batchStats results;
          pg1 = updateTotalStats batch pg
      in if withoutMask batch > 0 then
           showAlert
             (''Warning: '' @ showNat (withoutMask batch) @ '' person(s) without mask detected!'')
             ''warning''
             (if soundAlerts pg1 \<noteq> Some False then playAlertSound pg1 else pg1)
         else pg1)"

text \<open>
  Monitoring mode reads \<^verbatim>\<open>document.getElementById('soundAlerts').checked\<close> without
  the \<^verbatim>\<open>?.\<close>: on a page without the element the read throws. The second component
  is the error thrown, if any; the state is the one reached when it is thrown.
  \<open>now\<close> is the text of \<^verbatim>\<open>new Date().toLocaleTimeString()\<close>.
\<close>

definition displayMonitoringResults :: "string \<Rightarrow> result list \<Rightarrow> page \<Rightarrow> page \<times> js_error option" where
  "displayMonitoringResults now results pg =
     (let sessionStats = batchStats results;
          pg1 = updateTotalStats sessionStats pg
      in if withoutMask sessionStats > 0 then
           (case soundAlerts pg1 of
              None \<Rightarrow> (pg1, Some TypeError)
            | Some checked \<Rightarrow>
                (showAlert
                   (''Monitoring Alert: '' @ showNat (withoutMask sessionStats)
                      @ '' person(s) without mask detected at '' @ now @ ''!'')
                   ''warning''
                   (if checked then playAlertSound pg1 else pg1),
                 None))
         else (pg1, None))"

text \<open>
  The callback \<^verbatim>\<open>capturePhoto\<close> gives to \<^verbatim>\<open>canvas.toBlob\<close>, from the point
  where the detection of the captured file has ended with \<open>outcome\<close>. A promise that
  stays pending leaves the callback suspended.
\<close>

definition capturePhotoDone :: "result promise \<Rightarrow> page \<Rightarrow> page" where
  "capturePhotoDone outcome pg =
     (case outcome of
        Resolved r \<Rightarrow> showAlert ''Photo captured and processed'' ''success'' (displayCameraResults [r] pg)
      | Rejected e \<Rightarrow> pg
      | Pending \<Rightarrow> pg)"

text \<open>
  The callback \<^verbatim>\<open>captureMonitoringPhoto\<close> gives to \<^verbatim>\<open>canvas.toBlob\<close>:
  \<^verbatim>\<open>captureCount++\<close> once, then the display of the one result. It does not test
  \<^verbatim>\<open>monitoringActive\<close>.
\<close>

definition monitoringCaptureDone :: "string \<Rightarrow> result promise \<Rightarrow> page \<Rightarrow> page \<times> js_error option" where
  "monitoringCaptureDone now outcome pg =
     (case outcome of
        Resolved r \<Rightarrow> displayMonitoringResults now [r] (pg\<lparr>captureCount := captureCount pg + 1\<rparr>)
      | Rejected e \<Rightarrow> (pg, Some e)
      | Pending \<Rightarrow> (pg, None))"

section \<open>The monitoring scheduler\<close>

text \<open>A timer handle is truthy when it is set and not zero.\<close>

definition truthyHandle :: "nat option \<Rightarrow> bool" where
  "truthyHandle h = (case h of None \<Rightarrow> False | Some i \<Rightarrow> i \<noteq> 0)"

definition clearInterval :: "nat option \<Rightarrow> page \<Rightarrow> page" where
  "clearInterval h pg =
     (case h of
        None \<Rightarrow> pg
      | Some i \<Rightarrow> pg\<lparr>intervals := filter (\<lambda>t. fst t \<noteq> i) (intervals pg)\<rparr>)"

text \<open>The synchronous part of \<^verbatim>\<open>captureMonitoringPhoto\<close>: one snapshot when active.\<close>

definition captureMonitoringPhoto :: "page \<Rightarrow> page" where
  "captureMonitoringPhoto pg =
     (if \<not> monitoringActive pg then pg
      else pg\<lparr>captureRequests := captureRequests pg + 1\<rparr>)"

text \<open>
  One call of the closure \<^verbatim>\<open>updateCountdown\<close>, given the current values of the
  variables it closes over; it returns the new value of \<^verbatim>\<open>countdown\<close>.
  (\<^verbatim>\<open>intervalSeconds\<close> is an integer here; \<^verbatim>\<open>NaN\<close> from \<^verbatim>\<open>parseInt\<close> is left
  out.)
\<close>

definition updateCountdown :: "int \<Rightarrow> int \<Rightarrow> page \<Rightarrow> int \<times> page" where
  "updateCountdown countdown intervalSeconds pg =
     (if \<not> monitoringActive pg then (countdown, pg)
      else
        (let pg1 = pg\<lparr>nextCaptureTime :=
                        (if countdown > 0 then showNat (nat countdown) @ ''s''
                         else ''Capturing...'')\<rparr>
         in if countdown \<le> 0 then
              (let pg2 = clearInterval (monitoringCountdown pg1) pg1;
                   pg3 = captureMonitoringPhoto pg2;
                   pg4 = pg3\<lparr>timeouts := timeouts pg3 @ [intervalSeconds]\<rparr>
               in (countdown, pg4))
            else (countdown - 1, pg1)))"

definition scheduleNextCapture :: "int \<Rightarrow> page \<Rightarrow> page" where
  "scheduleNextCapture intervalSeconds pg =
     (if \<not> monitoringActive pg then pg
      else
        (let (countdown, pg1) = updateCountdown intervalSeconds intervalSeconds pg;
             h = nextTimerId pg1
         in pg1\<lparr>intervals := intervals pg1 @ [(h, countdown, intervalSeconds)],
                monitoringCountdown := Some h,
                nextTimerId := h + 1\<rparr>))"

text \<open>
  \<^verbatim>\<open>startMonitoring\<close> is asynchronous. Its first part runs at the click: the
  test of \<^verbatim>\<open>monitoringActive\<close>, then the request to \<^verbatim>\<open>getUserMedia\<close>,
  on which it waits. The flag is not set and the button not disabled before the wait
  is over, so a second call that comes in the meantime passes the test too.
\<close>

definition startMonitoring :: "page \<Rightarrow> page" where
  "startMonitoring pg =
     (if monitoringActive pg then pg
      else pg\<lparr>pendingStarts := pendingStarts pg + 1\<rparr>)"

text \<open>
  The rest of \<^verbatim>\<open>startMonitoring\<close>, run when \<^verbatim>\<open>getUserMedia\<close> has ended for
  one waiting call: \<open>camera\<close> is \<open>None\<close> when it gave a stream and the error
  message otherwise. \<open>intervalSeconds\<close> is what \<^verbatim>\<open>parseInt\<close> makes of the
  interval menu's value at that moment. Nothing happens when no call waits.
\<close>

definition startMonitoringResumed :: "string option \<Rightarrow> int \<Rightarrow> page \<Rightarrow> page" where
  "startMonitoringResumed camera intervalSeconds pg =
     (if pendingStarts pg = 0 then pg
      else
        (let pg0 = pg\<lparr>pendingStarts := pendingStarts pg - 1\<rparr>
         in case camera of
              None \<Rightarrow>
                showAlert ''Automatic monitoring started'' ''success''
                  (scheduleNextCapture intervalSeconds
                     (pg0\<lparr>currentStream := True, monitoringActive := True, captureCount := 0\<rparr>))
            | Some message \<Rightarrow>
                (showAlert (''Error starting monitoring: '' @ message) ''error'' pg0)
                  \<lparr>monitoringActive := False\<rparr>))"

definition stopMonitoring :: "page \<Rightarrow> page" where
  "stopMonitoring pg =
     (let pg1 = pg\<lparr>monitoringActive := False\<rparr>;
          pg2 = (if truthyHandle (monitoringInterval pg1)
                 then (clearInterval (monitoringInterval pg1) pg1)\<lparr>monitoringInterval := None\<rparr>
                 else pg1);
          pg3 = (if truthyHandle (monitoringCountdown pg2)
                 then (clearInterval (monitoringCountdown pg2) pg2)\<lparr>monitoringCountdown := None\<rparr>
                 else pg2);
          pg4 = pg3\<lparr>currentStream := False, nextCaptureTime := ''-''\<rparr>
      in showAlert ''Monitoring stopped'' ''info'' pg4)"

text \<open>
  What can happen to a page that monitors: the user starts monitoring, the camera
  answers a waiting start, the interval timer with handle \<open>h\<close> fires (nothing happens
  when it has been cleared), the oldest pending timeout fires, or the user stops
  monitoring.
\<close>

datatype event =
  StartMonitoring
| CameraAnswers "string option" int
| IntervalFires nat
| TimeoutFires
| StopMonitoring

definition intervalFires :: "nat \<Rightarrow> page \<Rightarrow> page" where
  "intervalFires h pg =
     (case map_of (intervals pg) h of
        None \<Rightarrow> pg
      | Some (countdown, intervalSeconds) \<Rightarrow>
          (let (countdown', pg1) = updateCountdown countdown intervalSeconds pg
           in pg1\<lparr>intervals :=
                    map (\<lambda>t. if fst t = h then (h, countdown', intervalSeconds) else t)
                      (intervals pg1)\<rparr>))"

definition timeoutFires :: "page \<Rightarrow> page" where
  "timeoutFires pg =
     (case timeouts pg of
        [] \<Rightarrow> pg
      | intervalSeconds # rest \<Rightarrow> scheduleNextCapture intervalSeconds (pg\<lparr>timeouts := rest\<rparr>))"

fun step :: "event \<Rightarrow> page \<Rightarrow> page" where
  "step StartMonitoring pg = startMonitoring pg"
| "step (CameraAnswers camera intervalSeconds) pg = startMonitoringResumed camera intervalSeconds pg"
| "step (IntervalFires h) pg = intervalFires h pg"
| "step TimeoutFires pg = timeoutFires pg"
| "step StopMonitoring pg = stopMonitoring pg"

definition run :: "event list \<Rightarrow> page \<Rightarrow> page" where
  "run evs pg = fold step evs pg"

text \<open>An event that starts nothing: a timer event or a stop.\<close>

fun startsNothing :: "event \<Rightarrow> bool" where
  "startsNothing StartMonitoring = False"
| "startsNothing (CameraAnswers camera intervalSeconds) = False"
| "startsNothing (IntervalFires h) = True"
| "startsNothing TimeoutFires = True"
| "startsNothing StopMonitoring = True"

section \<open>The export\<close>

text \<open>
  \<^verbatim>\<open>downloadResults(format = 'json')\<close>. \<open>arg\<close> is the argument of the call
  (\<open>None\<close> when it is called without one), \<open>now\<close> and \<open>now'\<close> the texts
  \<^verbatim>\<open>new Date().toISOString()\<close> gives for the time stamp and for the file name.
  Reading \<^verbatim>\<open>.value\<close> or \<^verbatim>\<open>.checked\<close> of an element the page does not have
  throws before anything else happens.
\<close>

definition datePart :: "string \<Rightarrow> string" where
  "datePart stamp = takeWhile (\<lambda>c. c \<noteq> CHR ''T'') stamp"

definition downloadResults :: "string option \<Rightarrow> string \<Rightarrow> string \<Rightarrow> page \<Rightarrow> js_error + page" where
  "downloadResults arg now now' pg =
     (let format = (case arg of None \<Rightarrow> ''json'' | Some a \<Rightarrow> a)
      in case intervalSelect pg of
           None \<Rightarrow> Inl TypeError
         | Some iv \<Rightarrow>
             (case soundAlerts pg of
                None \<Rightarrow> Inl TypeError
              | Some sa \<Rightarrow>
                  (let results =
                         \<lparr>ex_timestamp = now, ex_totalStats = totalStats pg,
                          ex_captureCount = captureCount pg,
                          ex_monitoringInterval = iv, ex_soundAlerts = sa\<rparr>;
                       (content, filename, mimeType) =
                         (if format = ''json'' then
                            (Some (JsonText results),
                             Some (''mask_detection_results_'' @ datePart now' @ ''.json''),
                             Some ''application/json'')
                          else if format = ''csv'' then
                            (Some (PlainText
                               (''Timestamp,With Mask,Without Mask,Incorrect Mask,Total Captures'' @ [CHR 0x0A]
                                @ ex_timestamp results @ '','' @ showNat (withMask (ex_totalStats results))
                                @ '','' @ showNat (withoutMask (ex_totalStats results))
                                @ '','' @ showNat (incorrectMask (ex_totalStats results))
                                @ '','' @ showNat (ex_captureCount results))),
                             Some (''mask_detection_results_'' @ datePart now' @ ''.csv''),
                             Some ''text/csv'')
                          else (None, None, None));
                       pg1 = pg\<lparr>effects := effects pg @ [DownloadBlob content mimeType filename]\<rparr>
                   in Inr (showAlert
                             (''Results exported as ''
                                @ (case filename of None \<Rightarrow> ''undefined'' | Some n \<Rightarrow> n))
                             ''success'' pg1))))"

section \<open>Geometry of painted primitives\<close>

text \<open>
  The top and the bottom edge of a painted primitive in canvas coordinates (\<open>y\<close> grows
  downwards); for a text, the baseline it is drawn on.
\<close>

fun paintTop :: "paint \<Rightarrow> real" where
  "paintTop (PaintImage img dx dy) = dy"
| "paintTop (PaintImageRegion img sx sy sw sh dx dy dw dh) = dy"
| "paintTop (PaintStrokeRect rx ry rw rh c lw) = ry"
| "paintTop (PaintFillRect rx ry rw rh c) = ry"
| "paintTop (PaintFillText txt tx ty f c) = ty"

fun paintBottom :: "paint \<Rightarrow> real" where
  "paintBottom (PaintImage img dx dy) = dy + real (img_height img)"
| "paintBottom (PaintImageRegion img sx sy sw sh dx dy dw dh) = dy + dh"
| "paintBottom (PaintStrokeRect rx ry rw rh c lw) = ry + rh"
| "paintBottom (PaintFillRect rx ry rw rh c) = ry + rh"
| "paintBottom (PaintFillText txt tx ty f c) = ty"

section \<open>Properties of a fabricated detection\<close>

text \<open>
  \<open>wellPlaced lo hi img d\<close>: the label of \<open>d\<close> is one of the three known ones, its
  confidence lies in \<open>[0.5, 1]\<close>, the corner of its box lies in the upper-left part of
  the image (at most half of each dimension, hence within three quarters of it), and
  each extent of the box lies between \<open>lo\<close> and \<open>hi\<close> times the image's dimension.
\<close>

definition wellPlaced :: "real \<Rightarrow> real \<Rightarrow> image \<Rightarrow> detection \<Rightarrow> bool" where
  "wellPlaced lo hi img d =
     (det_class d \<in> set classes \<and>
      1 / 2 \<le> confidence d \<and> confidence d \<le> 1 \<and>
      0 \<le> bbox_x (det_bbox d) \<and>
      bbox_x (det_bbox d) \<le> real (img_width img) / 2 \<and>
      bbox_x (det_bbox d) \<le> 3 / 4 * real (img_width img) \<and>
      0 \<le> bbox_y (det_bbox d) \<and>
      bbox_y (det_bbox d) \<le> real (img_height img) / 2 \<and>
      bbox_y (det_bbox d) \<le> 3 / 4 * real (img_height img) \<and>
      lo * real (img_width img) \<le> bbox_width (det_bbox d) \<and>
      bbox_width (det_bbox d) \<le> hi * real (img_width img) \<and>
      lo * real (img_height img) \<le> bbox_height (det_bbox d) \<and>
      bbox_height (det_bbox d) \<le> hi * real (img_height img))"

section \<open>Invariants of the countdown\<close>

text \<open>
  \<open>counting h c n r pg\<close>: monitoring is active, the one live timer is the countdown
  with handle \<open>h\<close>, \<open>c\<close> seconds to go of \<open>n\<close>, no timeout is pending and \<open>r\<close>
  snapshots have been taken. \<open>fired n r pg\<close>: the countdown has run out, its timer is
  cleared, the next round is pending. \<open>quiet pg\<close>: monitoring is stopped and no timer
  of the page is left.
\<close>

definition counting :: "nat \<Rightarrow> int \<Rightarrow> int \<Rightarrow> nat \<Rightarrow> page \<Rightarrow> bool" where
  "counting h c n r pg =
     (monitoringActive pg \<and> intervals pg = [(h, c, n)] \<and> monitoringCountdown pg = Some h \<and>
      h \<noteq> 0 \<and> monitoringInterval pg = None \<and> timeouts pg = [] \<and> captureRequests pg = r)"

definition fired :: "int \<Rightarrow> nat \<Rightarrow> page \<Rightarrow> bool" where
  "fired n r pg =
     (monitoringActive pg \<and> intervals pg = [] \<and> timeouts pg = [n] \<and> captureRequests pg = r)"

definition quiet :: "page \<Rightarrow> bool" where
  "quiet pg = (\<not> monitoringActive pg \<and> intervals pg = [] \<and> timeouts pg = [])"

section \<open>Sample values\<close>

definition sampleImage :: image where
  "sampleImage = \<lparr>img_width = 100, img_height = 100\<rparr>"

definition sampleFile :: js_file where
  "sampleFile = \<lparr>file_name = ''a.png'', file_type = ''image/png'', file_image = Some sampleImage\<rparr>"

text \<open>A browser whose encoder gives every canvas the same URL and whose font is 7 wide.\<close>

definition sampleBrowser :: browser where
  "sampleBrowser =
     \<lparr>toDataURL = (\<lambda>c. ''data:,''), measureText = (\<lambda>f t. 7 * real (length t))\<rparr>"

definition rndLow :: rng where
  "rndLow i = 0"

definition rndHigh :: rng where
  "rndHigh i = 9 / 10"

definition maskedDetection :: detection where
  "maskedDetection =
     \<lparr>det_class = ''with_mask'', confidence = 95 / 100,
      det_bbox = \<lparr>bbox_x = 10, bbox_y = 100, bbox_width = 50, bbox_height = 60\<rparr>\<rparr>"

definition shieldDetection :: detection where
  "shieldDetection =
     \<lparr>det_class = ''face_shield'', confidence = 9 / 10,
      det_bbox = \<lparr>bbox_x = 10, bbox_y = 10, bbox_width = 50, bbox_height = 60\<rparr>\<rparr>"

text \<open>
  A detection labelled with a key every object inherits, one whose box hangs over the
  lower right corner of the sample image, and one whose box lies outside it.
\<close>

definition constructorDetection :: detection where
  "constructorDetection =
     \<lparr>det_class = ''constructor'', confidence = 9 / 10,
      det_bbox = \<lparr>bbox_x = 10, bbox_y = 10, bbox_width = 50, bbox_height = 60\<rparr>\<rparr>"

definition edgeDetection :: detection where
  "edgeDetection =
     \<lparr>det_class = ''with_mask'', confidence = 9 / 10,
      det_bbox = \<lparr>bbox_x = 90, bbox_y = 90, bbox_width = 50, bbox_height = 50\<rparr>\<rparr>"

definition outsideDetection :: detection where
  "outsideDetection =
     \<lparr>det_class = ''with_mask'', confidence = 9 / 10,
      det_bbox = \<lparr>bbox_x = 200, bbox_y = 200, bbox_width = 50, bbox_height = 50\<rparr>\<rparr>"

text \<open>A successful response that carries what the simulation fabricates from \<open>rndLow\<close>.\<close>

definition sampleData :: api_data where
  "sampleData =
     \<lparr>d_success = True, d_error = None,
      d_detections = Some
        [\<lparr>det_class = ''with_mask'', confidence = 1 / 2,
          det_bbox = \<lparr>bbox_x = 0, bbox_y = 0, bbox_width = 10, bbox_height = 10\<rparr>\<rparr>],
      d_stats = Some \<lparr>with_mask = 1, without_mask = 0, mask_weared_incorrect = 0\<rparr>,
      d_result_image = Some ''data:,'',
      d_total_detections = Some 1\<rparr>"

definition sampleResponse :: response where
  "sampleResponse = \<lparr>resp_ok = True, resp_status = 200, resp_json = Some sampleData\<rparr>"

text \<open>A response with status 200 whose body is \<^verbatim>\<open>{"success": true}\<close> and nothing else.\<close>

definition bareResponse :: response where
  "bareResponse =
     \<lparr>resp_ok = True, resp_status = 200,
      resp_json = Some
        \<lparr>d_success = True, d_error = None, d_detections = None, d_stats = None,
         d_result_image = None, d_total_detections = None\<rparr>\<rparr>"

text \<open>The result of the end-to-end scenario: one masked and one unmasked face.\<close>

definition unmaskedResult :: result where
  "unmaskedResult =
     \<lparr>r_file = sampleFile,
      r_detections = Some
        [\<lparr>det_class = ''with_mask'', confidence = 95 / 100,
          det_bbox = \<lparr>bbox_x = 10, bbox_y = 10, bbox_width = 50, bbox_height = 60\<rparr>\<rparr>,
         \<lparr>det_class = ''without_mask'', confidence = 80 / 100,
          det_bbox = \<lparr>bbox_x = 100, bbox_y = 20, bbox_width = 40, bbox_height = 50\<rparr>\<rparr>],
      r_stats = Some \<lparr>with_mask = 1, without_mask = 1, mask_weared_incorrect = 0\<rparr>,
      r_resultImage = Some ''data:,'',
      r_totalDetections = Some 2\<rparr>"

text \<open>A response with status 500, and one whose body says \<^verbatim>\<open>success: false\<close>.\<close>

definition errorResponse :: response where
  "errorResponse = \<lparr>resp_ok = False, resp_status = 500, resp_json = None\<rparr>"

definition refusedData :: api_data where
  "refusedData =
     \<lparr>d_success = False, d_error = Some ''No image provided'', d_detections = None,
      d_stats = None, d_result_image = None, d_total_detections = None\<rparr>"

definition refusedResponse :: response where
  "refusedResponse = \<lparr>resp_ok = True, resp_status = 200, resp_json = Some refusedData\<rparr>"

text \<open>
  A run of the page: monitoring is started on a fresh page with interval 30, the
  countdown fires 30 times, which takes the snapshot, and monitoring is stopped before
  the two seconds to the next round are over. Then monitoring is started again and the
  timeout the first session left fires. \<open>timersTick hs k\<close> is \<open>k\<close> seconds in
  each of which the countdown timers with the handles \<open>hs\<close> fire once, in that order.
  \<open>doubleStart\<close> is a fresh page on which monitoring is started twice before the
  camera has answered.
\<close>

definition freshPage :: page where
  "freshPage = initialPage (Some True) (Some ''30'')"

definition firstSession :: "event list" where
  "firstSession =
     [StartMonitoring, CameraAnswers None 30] @ replicate 30 (IntervalFires 1) @ [StopMonitoring]"

definition restartInDelay :: "event list" where
  "restartInDelay = [StartMonitoring, CameraAnswers None 30, TimeoutFires]"

definition timersTick :: "nat list \<Rightarrow> nat \<Rightarrow> event list" where
  "timersTick hs k = concat (replicate k (map IntervalFires hs))"

definition doubleStart :: "event list" where
  "doubleStart =
     [StartMonitoring, StartMonitoring, CameraAnswers None 30, CameraAnswers None 30]"

section \<open>Class counts\<close>

lemma fold_countDetection:
  "with_mask (fold countDetection ds s) =
     with_mask s + length (filter (\<lambda>d. det_class d = ''with_mask'') ds) \<and>
   without_mask (fold countDetection ds s) =
     without_mask s + length (filter (\<lambda>d. det_class d = ''without_mask'') ds) \<and>
   mask_weared_incorrect (fold countDetection ds s) =
     mask_weared_incorrect s + length (filter (\<lambda>d. det_class d = ''mask_weared_incorrect'') ds)"
  by (induction ds arbitrary: s) (simp_all add: countDetection_def)

lemma fold_countDetection_script:
  "withMask (fold countDetection_script ds s) =
     withMask s + length (filter (\<lambda>d. det_class d = ''with_mask'') ds) \<and>
   withoutMask (fold countDetection_script ds s) =
     withoutMask s + length (filter (\<lambda>d. det_class d = ''without_mask'') ds) \<and>
   incorrectMask (fold countDetection_script ds s) =
     incorrectMask s + length (filter (\<lambda>d. det_class d = ''mask_weared_incorrect'') ds)"
  by (induction ds arbitrary: s) (simp_all add: countDetection_script_def)

lemma fold_results_countDetection_script:
  "withMask (fold (\<lambda>result s. fold countDetection_script result s) rs s) =
     withMask s + length (filter (\<lambda>d. det_class d = ''with_mask'') (concat rs)) \<and>
   withoutMask (fold (\<lambda>result s. fold countDetection_script result s) rs s) =
     withoutMask s + length (filter (\<lambda>d. det_class d = ''without_mask'') (concat rs)) \<and>
   incorrectMask (fold (\<lambda>result s. fold countDetection_script result s) rs s) =
     incorrectMask s + length (filter (\<lambda>d. det_class d = ''mask_weared_incorrect'') (concat rs))"
  by (induction rs arbitrary: s) (simp_all add: fold_countDetection_script)

lemma label_partition:
  "length (filter (\<lambda>d. det_class d = ''with_mask'') ds)
     + length (filter (\<lambda>d. det_class d = ''without_mask'') ds)
     + length (filter (\<lambda>d. det_class d = ''mask_weared_incorrect'') ds)
     + unknownCount ds = length ds"
  by (induction ds) (auto simp add: unknownCount_def classes_def)

text \<open>
  C2, as the code has it. Each of the three counts computed from a sequence \<open>D\<close> is the
  number of detections of \<open>D\<close> that carry exactly that label, so the three counts and
  the number of detections with another label add up to the length of \<open>D\<close>; a
  detection with another label is added to none of the three. This holds for
  \<^verbatim>\<open>calculateStatsFromDetections\<close> and for \<^verbatim>\<open>calculateStats\<close> of
  \<^verbatim>\<open>script.js\<close> over the detections of all results of a batch. The code keeps no
  count of the detections with another label.
\<close>

theorem class_counts_partition:
  "with_mask (calculateStatsFromDetections D) =
     length (filter (\<lambda>d. det_class d = ''with_mask'') D) \<and>
   without_mask (calculateStatsFromDetections D) =
     length (filter (\<lambda>d. det_class d = ''without_mask'') D) \<and>
   mask_weared_incorrect (calculateStatsFromDetections D) =
     length (filter (\<lambda>d. det_class d = ''mask_weared_incorrect'') D) \<and>
   with_mask (calculateStatsFromDetections D) + without_mask (calculateStatsFromDetections D)
     + mask_weared_incorrect (calculateStatsFromDetections D) + unknownCount D = length D \<and>
   withMask (calculateStats Rs) + withoutMask (calculateStats Rs) + incorrectMask (calculateStats Rs)
     + unknownCount (concat Rs) = length (concat Rs)"
  using label_partition [of D] label_partition [of "concat Rs"]
  by (simp add: calculateStatsFromDetections_def calculateStats_def fold_countDetection
      fold_results_countDetection_script)

text \<open>
  C2 as it is written fails where it says that detections with an unknown label are
  counted in a bucket of their own: the counts computed from one detection labelled
  \<^verbatim>\<open>face_shield\<close> are the counts computed from no detection at all, and they add
  up to less than the length of the sequence.
\<close>

theorem unknown_label_not_counted:
  "calculateStatsFromDetections [shieldDetection] = calculateStatsFromDetections [] \<and>
   with_mask (calculateStatsFromDetections [shieldDetection])
     + without_mask (calculateStatsFromDetections [shieldDetection])
     + mask_weared_incorrect (calculateStatsFromDetections [shieldDetection])
     < length [shieldDetection]"
  by (simp add: calculateStatsFromDetections_def countDetection_def shieldDetection_def)

section \<open>Session statistics\<close>

lemma captureCount_displayMonitoringResults:
  "captureCount (fst (displayMonitoringResults now rs pg)) = captureCount pg"
  by (simp add: displayMonitoringResults_def Let_def showAlert_def playAlertSound_def
      updateTotalStats_def split: option.split)

lemma totalStats_displayMonitoringResults:
  "totalStats (fst (displayMonitoringResults now rs pg)) =
     totalStats (updateTotalStats (batchStats rs) pg)"
  by (simp add: displayMonitoringResults_def Let_def showAlert_def playAlertSound_def
      updateTotalStats_def split: option.split)

text \<open>
  C3, as the code has it. \<^verbatim>\<open>updateTotalStats\<close> adds the three counts of a batch to
  the three session counts and leaves \<^verbatim>\<open>captureCount\<close> as it is; so do the upload,
  camera and monitoring display functions that call it. \<^verbatim>\<open>captureCount\<close> grows by
  exactly one in the callback of \<^verbatim>\<open>captureMonitoringPhoto\<close>, once per monitoring
  capture whose detection has returned, whatever the number of detections; the same
  callback folds the capture's counts into the session counts.
\<close>

theorem accumulate_additive:
  "withMask (totalStats (updateTotalStats s pg)) = withMask (totalStats pg) + withMask s \<and>
   withoutMask (totalStats (updateTotalStats s pg)) = withoutMask (totalStats pg) + withoutMask s \<and>
   incorrectMask (totalStats (updateTotalStats s pg)) =
     incorrectMask (totalStats pg) + incorrectMask s \<and>
   captureCount (updateTotalStats s pg) = captureCount pg \<and>
   captureCount (displayUploadResults rs pg) = captureCount pg \<and>
   captureCount (displayCameraResults rs pg) = captureCount pg \<and>
   captureCount (fst (displayMonitoringResults now rs pg)) = captureCount pg \<and>
   captureCount (fst (monitoringCaptureDone now (Resolved r) pg)) = captureCount pg + 1 \<and>
   totalStats (fst (monitoringCaptureDone now (Resolved r) pg)) =
     totalStats (updateTotalStats (batchStats [r]) pg)"
  by (simp add: captureCount_displayMonitoringResults totalStats_displayMonitoringResults
      monitoringCaptureDone_def displayUploadResults_def displayCameraResults_def Let_def
      showAlert_def playAlertSound_def updateTotalStats_def)

text \<open>
  C3 as it is written fails for \<^verbatim>\<open>captureCount\<close>: folding the batch of the
  end-to-end scenario into a fresh page, by \<^verbatim>\<open>updateTotalStats\<close> or by the whole
  upload path, does not add one to it.
\<close>

theorem upload_batch_keeps_captureCount:
  "captureCount (updateTotalStats (batchStats [unmaskedResult]) (initialPage (Some True) (Some ''30'')))
     \<noteq> captureCount (initialPage (Some True) (Some ''30'')) + 1 \<and>
   captureCount (displayUploadResults [unmaskedResult] (initialPage (Some True) (Some ''30'')))
     \<noteq> captureCount (initialPage (Some True) (Some ''30'')) + 1"
  by (simp add: displayUploadResults_def Let_def showAlert_def playAlertSound_def
      updateTotalStats_def initialPage_def)

section \<open>Alerts\<close>

text \<open>
  Camera mode shows the warning whenever the batch has an unmasked face; monitoring mode
  does so on a page that has the checkbox; upload mode does so only when the checkbox
  is not unchecked.
\<close>

lemma camera_alert:
  "0 < withoutMask (batchStats rs) \<Longrightarrow>
   last (effects (displayCameraResults rs pg)) =
     ShowAlert
       (''Warning: '' @ showNat (withoutMask (batchStats rs)) @ '' person(s) without mask detected!'')
       ''warning''"
  by (simp add: displayCameraResults_def Let_def showAlert_def)

lemma monitoring_alert:
  "0 < withoutMask (batchStats rs) \<Longrightarrow> soundAlerts pg = Some sa \<Longrightarrow>
   last (effects (fst (displayMonitoringResults now rs pg))) =
     ShowAlert
       (''Monitoring Alert: '' @ showNat (withoutMask (batchStats rs))
          @ '' person(s) without mask detected at '' @ now @ ''!'')
       ''warning''"
  by (simp add: displayMonitoringResults_def Let_def showAlert_def updateTotalStats_def)

text \<open>
  In \<^verbatim>\<open>capturePhoto\<close> the warning of camera mode is followed at once by the alert
  that the photo was processed, which replaces it as the badge on display.
\<close>

lemma camera_badge_replaced:
  "alertBadge (capturePhotoDone (Resolved r) pg) = Some (''Photo captured and processed'', ''success'')"
  by (simp add: capturePhotoDone_def showAlert_def)

lemma upload_alert_gated:
  "effects (displayUploadResults rs pg) =
     (if 0 < withoutMask (batchStats rs) \<and> soundAlerts pg \<noteq> Some False
      then effects pg @
             [PlayAlertSound,
              ShowAlert
                (''Warning: '' @ showNat (withoutMask (batchStats rs))
                   @ '' person(s) detected without mask!'')
                ''warning'']
      else effects pg)"
  by (simp add: displayUploadResults_def Let_def showAlert_def playAlertSound_def
      updateTotalStats_def)

text \<open>
  C4 at the batch of the end-to-end scenario (one face without a mask) on a page whose
  sound checkbox is unchecked: upload mode emits nothing, camera mode and monitoring
  mode emit the warning.
\<close>

theorem upload_alert_missing:
  "withoutMask (batchStats [unmaskedResult]) = 1 \<and>
   effects (displayUploadResults [unmaskedResult] (initialPage (Some False) (Some ''30''))) = [] \<and>
   effects (displayCameraResults [unmaskedResult] (initialPage (Some False) (Some ''30''))) =
     [ShowAlert ''Warning: 1 person(s) without mask detected!'' ''warning''] \<and>
   effects (fst (displayMonitoringResults ''10:00:00'' [unmaskedResult]
       (initialPage (Some False) (Some ''30'')))) =
     [ShowAlert ''Monitoring Alert: 1 person(s) without mask detected at 10:00:00!'' ''warning'']"
  by (simp add: batchStats_def addResultStats_def unmaskedResult_def displayUploadResults_def
      displayCameraResults_def displayMonitoringResults_def Let_def updateTotalStats_def
      initialPage_def showAlert_def playAlertSound_def showNat.simps digitChar_def)

section \<open>Bounds of the synthetic detector\<close>

lemma unit_scale: "0 \<le> r \<Longrightarrow> r < 1 \<Longrightarrow> 0 \<le> (w::real) \<Longrightarrow> 0 \<le> r * w \<and> r * w \<le> w"
  by (simp add: mult_left_le_one_le)

lemma class_index:
  assumes "0 \<le> r" and "r < 1"
  shows "nat \<lfloor>r * real (length classes)\<rfloor> < length classes"
proof -
  have "\<lfloor>r * 3\<rfloor> < 3" using assms by (simp add: floor_less_iff)
  then have "nat \<lfloor>r * 3\<rfloor> < 3" by arith
  moreover have "length classes = 3" by (simp add: classes_def)
  ultimately show ?thesis by simp
qed

lemma count_range:
  assumes "0 \<le> (r::real)" and "r < 1"
  shows "nat \<lfloor>r * 4\<rfloor> + 1 \<le> 4"
proof -
  have "\<lfloor>r * 4\<rfloor> < 4" using assms by (simp add: floor_less_iff)
  then show ?thesis by arith
qed

lemma wellPlaced_fabricated:
  assumes c: "c \<in> set classes"
    and r1: "0 \<le> r1" "r1 < 1" and r2: "0 \<le> r2" "r2 < 1" and r3: "0 \<le> r3" "r3 < 1"
    and r4: "0 \<le> r4" "r4 < 1" and r5: "0 \<le> r5" "r5 < 1"
    and lo: "lo = 1 / 10 \<and> hi = 4 / 10 \<or> lo = 2 / 10 \<and> hi = 5 / 10"
  shows "wellPlaced lo hi img
           \<lparr>det_class = c, confidence = 0.5 + r1 * 0.5,
            det_bbox =
              \<lparr>bbox_x = r2 * real (img_width img) * 0.5,
               bbox_y = r3 * real (img_height img) * 0.5,
               bbox_width = real (img_width img) * lo + r4 * real (img_width img) * 0.3,
               bbox_height = real (img_height img) * lo + r5 * real (img_height img) * 0.3\<rparr>\<rparr>"
proof -
  have w0: "0 \<le> real (img_width img)" and h0: "0 \<le> real (img_height img)" by simp_all
  have t2: "0 \<le> r2 * real (img_width img) \<and> r2 * real (img_width img) \<le> real (img_width img)"
    using r2 w0 by (rule unit_scale)
  have t3: "0 \<le> r3 * real (img_height img) \<and> r3 * real (img_height img) \<le> real (img_height img)"
    using r3 h0 by (rule unit_scale)
  have t4: "0 \<le> r4 * real (img_width img) \<and> r4 * real (img_width img) \<le> real (img_width img)"
    using r4 w0 by (rule unit_scale)
  have t5: "0 \<le> r5 * real (img_height img) \<and> r5 * real (img_height img) \<le> real (img_height img)"
    using r5 h0 by (rule unit_scale)
  from lo show ?thesis
  proof
    assume a: "lo = 1 / 10 \<and> hi = 4 / 10"
    then have lo': "lo = 1 / 10" and hi': "hi = 4 / 10" by simp_all
    show ?thesis
      unfolding wellPlaced_def detection.select_convs bbox.select_convs lo' hi'
      using c r1 t2 t3 t4 t5 by - (intro conjI; (assumption | linarith))
  next
    assume a: "lo = 2 / 10 \<and> hi = 5 / 10"
    then have lo': "lo = 2 / 10" and hi': "hi = 5 / 10" by simp_all
    show ?thesis
      unfolding wellPlaced_def detection.select_convs bbox.select_convs lo' hi'
      using c r1 t2 t3 t4 t5 by - (intro conjI; (assumption | linarith))
  qed
qed

lemma randomDetection_wellPlaced:
  assumes "unitRange rnd"
  shows "wellPlaced (1 / 10) (4 / 10) img (randomDetection rnd img p)"
proof -
  have r: "\<And>i. 0 \<le> rnd i" "\<And>i. rnd i < 1" using assms by (simp_all add: unitRange_def)
  have c: "classes ! nat \<lfloor>rnd p * real (length classes)\<rfloor> \<in> set classes"
    using r by (intro nth_mem class_index)
  have "wellPlaced (1 / 10) (4 / 10) img
           \<lparr>det_class = classes ! nat \<lfloor>rnd p * real (length classes)\<rfloor>,
            confidence = 0.5 + rnd (p + 1) * 0.5,
            det_bbox =
              \<lparr>bbox_x = rnd (p + 2) * real (img_width img) * 0.5,
               bbox_y = rnd (p + 3) * real (img_height img) * 0.5,
               bbox_width = real (img_width img) * (1 / 10) + rnd (p + 4) * real (img_width img) * 0.3,
               bbox_height = real (img_height img) * (1 / 10) + rnd (p + 5) * real (img_height img) * 0.3\<rparr>\<rparr>"
    using c r by (intro wellPlaced_fabricated) simp_all
  then show ?thesis by (simp add: randomDetection_def)
qed

lemma randomDetection_script_wellPlaced:
  assumes "unitRange rnd"
  shows "wellPlaced (2 / 10) (5 / 10) img (randomDetection_script rnd img p)"
proof -
  have r: "\<And>i. 0 \<le> rnd i" "\<And>i. rnd i < 1" using assms by (simp_all add: unitRange_def)
  have c: "classes ! nat \<lfloor>rnd p * real (length classes)\<rfloor> \<in> set classes"
    using r by (intro nth_mem class_index)
  have "wellPlaced (2 / 10) (5 / 10) img
           \<lparr>det_class = classes ! nat \<lfloor>rnd p * real (length classes)\<rfloor>,
            confidence = 0.5 + rnd (p + 1) * 0.5,
            det_bbox =
              \<lparr>bbox_x = rnd (p + 2) * real (img_width img) * 0.5,
               bbox_y = rnd (p + 3) * real (img_height img) * 0.5,
               bbox_width = real (img_width img) * (2 / 10) + rnd (p + 4) * real (img_width img) * 0.3,
               bbox_height = real (img_height img) * (2 / 10) + rnd (p + 5) * real (img_height img) * 0.3\<rparr>\<rparr>"
    using c r by (intro wellPlaced_fabricated) simp_all
  then show ?thesis by (simp add: randomDetection_script_def)
qed

lemma length_simulateLoop: "length (simulateLoop rnd img n p) = n"
  by (induction n arbitrary: p) simp_all

lemma length_simulateLoop_script: "length (simulateLoop_script rnd img n p) = n"
  by (induction n arbitrary: p) simp_all

lemma nth_simulateLoop: "i < n \<Longrightarrow> simulateLoop rnd img n p ! i = randomDetection rnd img (p + 6 * i)"
proof (induction n arbitrary: p i)
  case 0
  then show ?case by simp
next
  case (Suc n)
  then show ?case by (cases i) (simp_all add: add.assoc)
qed

lemma nth_simulateLoop_script:
  "i < n \<Longrightarrow> simulateLoop_script rnd img n p ! i = randomDetection_script rnd img (p + 6 * i)"
proof (induction n arbitrary: p i)
  case 0
  then show ?case by simp
next
  case (Suc n)
  then show ?case by (cases i) (simp_all add: add.assoc)
qed

lemma set_simulateLoop: "d \<in> set (simulateLoop rnd img n p) \<Longrightarrow> \<exists>q. d = randomDetection rnd img q"
  by (induction n arbitrary: p) auto

lemma set_simulateLoop_script:
  "d \<in> set (simulateLoop_script rnd img n p) \<Longrightarrow> \<exists>q. d = randomDetection_script rnd img q"
  by (induction n arbitrary: p) auto

lemma simulateYOLODetection_loop:
  "simulateYOLODetection rnd img = simulateLoop rnd img (nat \<lfloor>rnd 0 * 4\<rfloor> + 1) 1"
  unfolding simulateYOLODetection_def Let_def by (rule refl)

lemma simulateYOLODetection_script_loop:
  "simulateYOLODetection_script rnd img = simulateLoop_script rnd img (nat \<lfloor>rnd 0 * 4\<rfloor> + 1) 1"
  unfolding simulateYOLODetection_script_def Let_def by (rule refl)

lemma length_simulateYOLODetection:
  assumes "unitRange rnd"
  shows "1 \<le> length (simulateYOLODetection rnd img) \<and> length (simulateYOLODetection rnd img) \<le> 4"
  using assms count_range [of "rnd 0"]
  by (simp add: simulateYOLODetection_def Let_def length_simulateLoop unitRange_def)

lemma length_simulateYOLODetection_script:
  assumes "unitRange rnd"
  shows "1 \<le> length (simulateYOLODetection_script rnd img) \<and> length (simulateYOLODetection_script rnd img) \<le> 4"
  using assms count_range [of "rnd 0"]
  by (simp add: simulateYOLODetection_script_def Let_def length_simulateLoop_script unitRange_def)

text \<open>
  C6, as the code has it. With \<^verbatim>\<open>Math.random()\<close> in \<open>[0, 1)\<close>, a call of
  \<^verbatim>\<open>simulateYOLODetection\<close> fabricates between 1 and 4 detections. Each has one
  of the three known labels, picked by one draw \<open>r\<close> as \<^verbatim>\<open>classes[floor(3 r)]\<close>
  (so each third of the unit interval gives one label), a confidence in \<open>[0.5, 1]\<close>,
  and a box whose corner lies within the upper-left half of each dimension of the
  image, hence within three quarters of it. In \<^verbatim>\<open>script_with_api.js\<close> each extent
  of the box lies between 10% and 40% of the image's dimension; in \<^verbatim>\<open>script.js\<close>
  it lies between 20% and 50%.
\<close>

theorem synthetic_detections_bounds:
  assumes "unitRange rnd"
  shows "1 \<le> length (simulateYOLODetection rnd img) \<and>
         length (simulateYOLODetection rnd img) \<le> 4 \<and>
         (\<forall>d \<in> set (simulateYOLODetection rnd img). wellPlaced (1 / 10) (4 / 10) img d) \<and>
         (\<forall>i < length (simulateYOLODetection rnd img).
            det_class (simulateYOLODetection rnd img ! i) = classes ! nat \<lfloor>rnd (1 + 6 * i) * 3\<rfloor>) \<and>
         1 \<le> length (simulateYOLODetection_script rnd img) \<and>
         length (simulateYOLODetection_script rnd img) \<le> 4 \<and>
         (\<forall>d \<in> set (simulateYOLODetection_script rnd img). wellPlaced (2 / 10) (5 / 10) img d) \<and>
         (\<forall>i < length (simulateYOLODetection_script rnd img).
            det_class (simulateYOLODetection_script rnd img ! i) = classes ! nat \<lfloor>rnd (1 + 6 * i) * 3\<rfloor>)"
proof -
  have a: "\<forall>d \<in> set (simulateYOLODetection rnd img). wellPlaced (1 / 10) (4 / 10) img d"
    using randomDetection_wellPlaced [OF assms]
    by (auto simp add: simulateYOLODetection_def Let_def dest!: set_simulateLoop)
  have b: "\<forall>d \<in> set (simulateYOLODetection_script rnd img). wellPlaced (2 / 10) (5 / 10) img d"
    using randomDetection_script_wellPlaced [OF assms]
    by (auto simp add: simulateYOLODetection_script_def Let_def dest!: set_simulateLoop_script)
  have c: "\<forall>i < length (simulateYOLODetection rnd img).
            det_class (simulateYOLODetection rnd img ! i) = classes ! nat \<lfloor>rnd (1 + 6 * i) * 3\<rfloor>"
  proof (intro allI impI)
    fix i
    assume "i < length (simulateYOLODetection rnd img)"
    then have "i < nat \<lfloor>rnd 0 * 4\<rfloor> + 1"
      by (simp only: simulateYOLODetection_loop length_simulateLoop)
    then have "simulateYOLODetection rnd img ! i = randomDetection rnd img (1 + 6 * i)"
      by (simp only: simulateYOLODetection_loop nth_simulateLoop)
    then show "det_class (simulateYOLODetection rnd img ! i) = classes ! nat \<lfloor>rnd (1 + 6 * i) * 3\<rfloor>"
      by (simp add: randomDetection_def classes_def)
  qed
  have d: "\<forall>i < length (simulateYOLODetection_script rnd img).
            det_class (simulateYOLODetection_script rnd img ! i) = classes ! nat \<lfloor>rnd (1 + 6 * i) * 3\<rfloor>"
  proof (intro allI impI)
    fix i
    assume "i < length (simulateYOLODetection_script rnd img)"
    then have "i < nat \<lfloor>rnd 0 * 4\<rfloor> + 1"
      by (simp only: simulateYOLODetection_script_loop length_simulateLoop_script)
    then have "simulateYOLODetection_script rnd img ! i = randomDetection_script rnd img (1 + 6 * i)"
      by (simp only: simulateYOLODetection_script_loop nth_simulateLoop_script)
    then show "det_class (simulateYOLODetection_script rnd img ! i) = classes ! nat \<lfloor>rnd (1 + 6 * i) * 3\<rfloor>"
      by (simp add: randomDetection_script_def classes_def)
  qed
  show ?thesis
    using a b c d length_simulateYOLODetection [OF assms] length_simulateYOLODetection_script [OF assms]
    by blast
qed

text \<open>The theorem at the constant draw \<open>0.9\<close> and a 100 by 100 image.\<close>

theorem synthetic_detections_bounds_witness:
  "unitRange rndHigh \<and>
   length (simulateYOLODetection rndHigh sampleImage) = 4 \<and>
   wellPlaced (1 / 10) (4 / 10) sampleImage (simulateYOLODetection rndHigh sampleImage ! 0) \<and>
   det_class (simulateYOLODetection rndHigh sampleImage ! 0) = ''mask_weared_incorrect'' \<and>
   length (simulateYOLODetection_script rndHigh sampleImage) = 4 \<and>
   wellPlaced (2 / 10) (5 / 10) sampleImage (simulateYOLODetection_script rndHigh sampleImage ! 0)"
proof -
  have u: "unitRange rndHigh" by (simp add: unitRange_def rndHigh_def)
  have f: "\<lfloor>(18::real) / 5\<rfloor> = 3" by (simp add: floor_eq_iff)
  have l: "length (simulateYOLODetection rndHigh sampleImage) = 4"
    by (simp add: simulateYOLODetection_def Let_def length_simulateLoop rndHigh_def f)
  have l': "length (simulateYOLODetection_script rndHigh sampleImage) = 4"
    by (simp add: simulateYOLODetection_script_def Let_def length_simulateLoop_script rndHigh_def f)
  have g: "\<lfloor>(27::real) / 10\<rfloor> = 2" by (simp add: floor_eq_iff)
  have c: "classes ! nat \<lfloor>rndHigh (1 + 6 * 0) * 3\<rfloor> = ''mask_weared_incorrect''"
    by (simp add: rndHigh_def classes_def g)
  show ?thesis
    using synthetic_detections_bounds [OF u, of sampleImage] l l' c u
    by (simp add: nth_mem)
qed

text \<open>
  C6 as it is written fails for \<^verbatim>\<open>script.js\<close>: at the constant draw \<open>0.9\<close> and a
  100 by 100 image its first box is 47 wide, more than 40% of the image's width.
\<close>

theorem script_box_exceeds_forty_percent:
  "\<not> wellPlaced (1 / 10) (4 / 10) sampleImage (hd (simulateYOLODetection_script rndHigh sampleImage)) \<and>
   bbox_width (det_bbox (hd (simulateYOLODetection_script rndHigh sampleImage))) = 47"
proof -
  have f: "\<lfloor>(18::real) / 5\<rfloor> = 3" by (simp add: floor_eq_iff)
  show ?thesis
    by (simp add: simulateYOLODetection_script_def Let_def rndHigh_def f numeral_eq_Suc
        randomDetection_script_def wellPlaced_def sampleImage_def)
qed

section \<open>Failure handling of the detection client\<close>

lemma tryDetect_serviceFails: "serviceFails fr \<Longrightarrow> \<exists>e. tryDetect f fr = Inl e"
  by (auto simp add: serviceFails_def tryDetect_def split: fetch_result.splits option.splits)

lemma tryDetect_serviceWorks: "\<not> serviceFails fr \<Longrightarrow> \<exists>r. tryDetect f fr = Inr r"
  by (auto simp add: serviceFails_def tryDetect_def split: fetch_result.splits option.splits)

lemma processImageWithAPI_fails:
  "serviceFails fr \<Longrightarrow> processImageWithAPI br rnd f fr = processImageSimulation br rnd f"
  using tryDetect_serviceFails [of fr f] by (auto simp add: processImageWithAPI_def)

lemma processImageSimulation_not_Rejected: "processImageSimulation br rnd f \<noteq> Rejected e"
  by (simp add: processImageSimulation_def Let_def split: option.split)

lemma processImageWithAPI_not_Rejected: "processImageWithAPI br rnd f fr \<noteq> Rejected e"
  by (simp add: processImageWithAPI_def processImageSimulation_not_Rejected split: sum.split)

lemma echo_response:
  assumes "r_file r = f"
  shows "\<not> serviceFails (Response
            \<lparr>resp_ok = True, resp_status = 200,
             resp_json = Some
               \<lparr>d_success = True, d_error = None, d_detections = r_detections r,
                d_stats = r_stats r, d_result_image = r_resultImage r,
                d_total_detections = r_totalDetections r\<rparr>\<rparr>) \<and>
         processImageWithAPI br rnd f (Response
            \<lparr>resp_ok = True, resp_status = 200,
             resp_json = Some
               \<lparr>d_success = True, d_error = None, d_detections = r_detections r,
                d_stats = r_stats r, d_result_image = r_resultImage r,
                d_total_detections = r_totalDetections r\<rparr>\<rparr>) = Resolved r"
  using assms by (simp add: serviceFails_def processImageWithAPI_def tryDetect_def)

lemma processImageSimulation_decodes:
  assumes "file_image f = Some img"
  shows "\<exists>r. processImageSimulation br rnd f = Resolved r \<and> r_file r = f \<and>
             r_detections r = Some (simulateYOLODetection rnd img) \<and>
             r_totalDetections r = Some (length (simulateYOLODetection rnd img)) \<and>
             r_stats r = Some (calculateStatsFromDetections (simulateYOLODetection rnd img))"
  using assms by (simp add: processImageSimulation_def Let_def)

text \<open>
  C5, as the code has it. \<^verbatim>\<open>processImageWithAPI\<close> never ends with an error. When
  \<^verbatim>\<open>fetch\<close> rejects, when the status is not a success status, when the body is
  not a JSON object, and when the body's \<^verbatim>\<open>success\<close> field is false or missing,
  it ends as \<^verbatim>\<open>processImageSimulation\<close> ends, which resolves with a fabricated
  result for every file that decodes to an image. A response with a success status and
  a true \<^verbatim>\<open>success\<close> is returned as it is, with every field it lacks
  \<^verbatim>\<open>undefined\<close>.
\<close>

theorem detect_never_raises:
  "(\<forall>e. processImageWithAPI br rnd f fr \<noteq> Rejected e) \<and>
   processImageWithAPI br rnd f NetworkError = processImageSimulation br rnd f \<and>
   (\<not> resp_ok resp \<longrightarrow>
      processImageWithAPI br rnd f (Response resp) = processImageSimulation br rnd f) \<and>
   (resp_json resp = None \<longrightarrow>
      processImageWithAPI br rnd f (Response resp) = processImageSimulation br rnd f) \<and>
   (resp_json resp = Some data \<and> \<not> d_success data \<longrightarrow>
      processImageWithAPI br rnd f (Response resp) = processImageSimulation br rnd f) \<and>
   (file_image f = Some img \<longrightarrow> (\<exists>r. processImageSimulation br rnd f = Resolved r)) \<and>
   (resp_ok resp \<and> resp_json resp = Some data \<and> d_success data \<longrightarrow>
      processImageWithAPI br rnd f (Response resp) =
        Resolved \<lparr>r_file = f, r_detections = d_detections data, r_stats = d_stats data,
                  r_resultImage = d_result_image data,
                  r_totalDetections = d_total_detections data\<rparr>)"
proof -
  have "resp_ok resp \<and> resp_json resp = Some data \<and> d_success data \<longrightarrow>
      processImageWithAPI br rnd f (Response resp) =
        Resolved \<lparr>r_file = f, r_detections = d_detections data, r_stats = d_stats data,
                  r_resultImage = d_result_image data,
                  r_totalDetections = d_total_detections data\<rparr>"
    by (simp add: processImageWithAPI_def tryDetect_def)
  then show ?thesis
    using processImageSimulation_decodes [of f img br rnd]
    by (auto simp add: processImageWithAPI_not_Rejected processImageWithAPI_fails serviceFails_def)
qed

text \<open>
  The theorem at a response with status 500, at a body with \<^verbatim>\<open>success: false\<close>
  and at a successful response.
\<close>

theorem detect_never_raises_witness:
  "\<not> resp_ok errorResponse \<and> resp_json errorResponse = None \<and>
   processImageWithAPI sampleBrowser rndLow sampleFile (Response errorResponse) =
     processImageSimulation sampleBrowser rndLow sampleFile \<and>
   resp_json refusedResponse = Some refusedData \<and> \<not> d_success refusedData \<and>
   processImageWithAPI sampleBrowser rndLow sampleFile (Response refusedResponse) =
     processImageSimulation sampleBrowser rndLow sampleFile \<and>
   file_image sampleFile = Some sampleImage \<and>
   (\<exists>r. processImageSimulation sampleBrowser rndLow sampleFile = Resolved r) \<and>
   resp_ok sampleResponse \<and> resp_json sampleResponse = Some sampleData \<and> d_success sampleData \<and>
   processImageWithAPI sampleBrowser rndLow sampleFile (Response sampleResponse) =
     Resolved \<lparr>r_file = sampleFile, r_detections = d_detections sampleData,
               r_stats = d_stats sampleData, r_resultImage = d_result_image sampleData,
               r_totalDetections = d_total_detections sampleData\<rparr>"
  using detect_never_raises [of sampleBrowser rndLow sampleFile NetworkError errorResponse
      refusedData sampleImage]
    detect_never_raises [of sampleBrowser rndLow sampleFile NetworkError refusedResponse
      refusedData sampleImage]
    detect_never_raises [of sampleBrowser rndLow sampleFile NetworkError sampleResponse
      sampleData sampleImage]
  by (simp add: errorResponse_def refusedResponse_def refusedData_def sampleFile_def
      sampleResponse_def sampleData_def)

text \<open>
  C5 as it is written fails for a response with fields missing: a body that is just
  \<^verbatim>\<open>{"success": true}\<close> is returned as a result whose detections, counts and
  image are \<^verbatim>\<open>undefined\<close>, not replaced by the fallback.
\<close>

theorem bare_success_is_not_fallback:
  "processImageWithAPI sampleBrowser rndLow sampleFile (Response bareResponse) =
     Resolved \<lparr>r_file = sampleFile, r_detections = None, r_stats = None, r_resultImage = None,
               r_totalDetections = None\<rparr> \<and>
   processImageWithAPI sampleBrowser rndLow sampleFile (Response bareResponse) \<noteq>
     processImageSimulation sampleBrowser rndLow sampleFile"
  by (simp add: processImageWithAPI_def tryDetect_def bareResponse_def processImageSimulation_def
      Let_def sampleFile_def)

text \<open>
  C1, as the code has it. For every file that decodes to an image and every failing
  service call, the client resolves with a result that holds between 1 and 4
  detections, their number and their class counts. The result has the five fields of
  a result of real inference and no other, and nothing in it marks it as synthetic:
  some successful response of the service makes the client return the same object.
\<close>

theorem fallback_result:
  assumes "serviceFails fr" and "file_image f = Some img" and "unitRange rnd"
  shows "\<exists>r ds. processImageWithAPI br rnd f fr = Resolved r \<and>
           r_detections r = Some ds \<and> 1 \<le> length ds \<and> length ds \<le> 4 \<and>
           r_totalDetections r = Some (length ds) \<and>
           r_stats r = Some (calculateStatsFromDetections ds) \<and>
           (\<exists>resp. \<not> serviceFails (Response resp) \<and>
                   processImageWithAPI br rnd f (Response resp) = Resolved r)"
proof -
  obtain r where r: "processImageSimulation br rnd f = Resolved r" "r_file r = f"
      "r_detections r = Some (simulateYOLODetection rnd img)"
      "r_totalDetections r = Some (length (simulateYOLODetection rnd img))"
      "r_stats r = Some (calculateStatsFromDetections (simulateYOLODetection rnd img))"
    using processImageSimulation_decodes [OF assms(2)] by blast
  have "processImageWithAPI br rnd f fr = Resolved r"
    using processImageWithAPI_fails [OF assms(1)] r(1) by simp
  moreover have "\<exists>resp. \<not> serviceFails (Response resp) \<and>
                   processImageWithAPI br rnd f (Response resp) = Resolved r"
    using echo_response [OF r(2)] by blast
  ultimately show ?thesis
    using r(3,4,5) length_simulateYOLODetection [OF assms(3), of img] by blast
qed

text \<open>The theorem at a rejected \<^verbatim>\<open>fetch\<close>, the sample file and the constant draw \<open>0\<close>.\<close>

theorem fallback_result_witness:
  "serviceFails NetworkError \<and> file_image sampleFile = Some sampleImage \<and> unitRange rndLow \<and>
   (\<exists>r ds. processImageWithAPI sampleBrowser rndLow sampleFile NetworkError = Resolved r \<and>
           r_detections r = Some ds \<and> 1 \<le> length ds \<and> length ds \<le> 4 \<and>
           r_totalDetections r = Some (length ds) \<and>
           r_stats r = Some (calculateStatsFromDetections ds) \<and>
           (\<exists>resp. \<not> serviceFails (Response resp) \<and>
                   processImageWithAPI sampleBrowser rndLow sampleFile (Response resp) = Resolved r))"
proof -
  have a: "serviceFails NetworkError" by (simp add: serviceFails_def)
  have b: "file_image sampleFile = Some sampleImage" by (simp add: sampleFile_def)
  have c: "unitRange rndLow" by (simp add: unitRange_def rndLow_def)
  show ?thesis using a b c fallback_result [OF a b c, of sampleBrowser] by blast
qed

text \<open>
  C1 as it is written fails where it asks for a marker: what the client returns when
  \<^verbatim>\<open>fetch\<close> rejects is equal to what it returns for a successful response
  carrying the same detections. The sample browser fixes one encoder to make the
  statement closed; by the theorem above the same holds for every encoder.
\<close>

theorem fallback_equals_real_output:
  "processImageWithAPI sampleBrowser rndLow sampleFile NetworkError =
     processImageWithAPI sampleBrowser rndLow sampleFile (Response sampleResponse) \<and>
   serviceFails NetworkError \<and> \<not> serviceFails (Response sampleResponse)"
  by (simp add: processImageWithAPI_def tryDetect_def processImageSimulation_def Let_def
      sampleResponse_def sampleData_def sampleFile_def sampleImage_def sampleBrowser_def rndLow_def
      serviceFails_def
      simulateYOLODetection_def randomDetection_def classes_def calculateStatsFromDetections_def
      countDetection_def)

section \<open>What the annotator paints\<close>

lemma styleSet_Str: "styleSet old (Str c) = c"
  by (simp add: styleSet_def)

text \<open>
  C9, as the code has it. For every detection \<^verbatim>\<open>drawBoundingBox\<close> paints three
  primitives, in this order: the box as a stroked rectangle of line width 3 in the
  colour of the class; a filled rectangle in the same colour, as wide as the measured
  label plus 10 and 25 high, whose top edge is 25 above the top edge of the box, so
  that its bottom edge is the top edge of the box; and the label in white, 5 to the
  right of the box's left edge on a baseline 8 above the top edge of the box. The label
  is the class name with its first underscore replaced by a space, a space, the
  confidence times 100 with one decimal, and a percent sign. The colours are
  \<^verbatim>\<open>#38a169\<close> (green), \<^verbatim>\<open>#e53e3e\<close> (red), \<^verbatim>\<open>#d69e2e\<close> (amber) for the
  three known classes and \<^verbatim>\<open>#4a5568\<close> (gray) for any other label that is not a
  key every object inherits; for a label that is such a key (\<^verbatim>\<open>constructor\<close>,
  \<^verbatim>\<open>toString\<close>, \<^verbatim>\<open>__proto__\<close> and the like) the lookup gives no colour and the
  box and the chip keep the stroke and fill style the canvas had.
\<close>

theorem annotation_painted:
  "painted (drawBoundingBox br ctx d) =
     painted ctx @
       [PaintStrokeRect (bbox_x (det_bbox d)) (bbox_y (det_bbox d)) (bbox_width (det_bbox d))
          (bbox_height (det_bbox d)) (styleSet (strokeStyle ctx) (colorOf (det_class d))) 3,
        PaintFillRect (bbox_x (det_bbox d)) (bbox_y (det_bbox d) - 25)
          (measureText br ''14px Arial'' (labelOf d) + 10) 25
          (styleSet (fillStyle ctx) (colorOf (det_class d))),
        PaintFillText (labelOf d) (bbox_x (det_bbox d) + 5) (bbox_y (det_bbox d) - 8)
          ''14px Arial'' ''white''] \<and>
   paintBottom (painted (drawBoundingBox br ctx d) ! (length (painted ctx) + 1)) = bbox_y (det_bbox d) \<and>
   labelOf d = replaceFirst CHR ''_'' CHR '' '' (det_class d) @ '' '' @ toFixed1 (confidence d * 100) @ ''%'' \<and>
   styleSet old (colorOf ''with_mask'') = ''#38a169'' \<and>
   styleSet old (colorOf ''without_mask'') = ''#e53e3e'' \<and>
   styleSet old (colorOf ''mask_weared_incorrect'') = ''#d69e2e'' \<and>
   (det_class d \<notin> set classes \<and> det_class d \<notin> set objectPrototypeKeys \<longrightarrow>
      styleSet old (colorOf (det_class d)) = ''#4a5568'') \<and>
   (det_class d \<in> set objectPrototypeKeys \<longrightarrow> styleSet old (colorOf (det_class d)) = old)"
proof -
  have known: "styleSet old (colorOf ''with_mask'') = ''#38a169''"
      "styleSet old (colorOf ''without_mask'') = ''#e53e3e''"
      "styleSet old (colorOf ''mask_weared_incorrect'') = ''#d69e2e''"
    by (simp_all add: styleSet_def colorOf_def colorsLookup_def colors_def)
  have other: "det_class d \<notin> set classes \<and> det_class d \<notin> set objectPrototypeKeys \<longrightarrow>
      styleSet old (colorOf (det_class d)) = ''#4a5568''"
    by (simp add: styleSet_def colorOf_def colorsLookup_def colors_def classes_def)
  have inherited: "det_class d \<in> set objectPrototypeKeys \<longrightarrow> styleSet old (colorOf (det_class d)) = old"
    by (auto simp add: styleSet_def colorOf_def colorsLookup_def colors_def objectPrototypeKeys_def)
  have p: "painted (drawBoundingBox br ctx d) =
     painted ctx @
       [PaintStrokeRect (bbox_x (det_bbox d)) (bbox_y (det_bbox d)) (bbox_width (det_bbox d))
          (bbox_height (det_bbox d)) (styleSet (strokeStyle ctx) (colorOf (det_class d))) 3,
        PaintFillRect (bbox_x (det_bbox d)) (bbox_y (det_bbox d) - 25)
          (measureText br ''14px Arial'' (labelOf d) + 10) 25
          (styleSet (fillStyle ctx) (colorOf (det_class d))),
        PaintFillText (labelOf d) (bbox_x (det_bbox d) + 5) (bbox_y (det_bbox d) - 8)
          ''14px Arial'' ''white'']"
    by (simp add: drawBoundingBox_def Let_def strokeRect_def fillRect_def fillText_def styleSet_Str)
  have b: "paintBottom (painted (drawBoundingBox br ctx d) ! (length (painted ctx) + 1)) = bbox_y (det_bbox d)"
    by (simp add: p nth_append)
  show ?thesis using known other inherited p b by (simp add: labelOf_def)
qed

text \<open>
  The theorem on a fresh canvas, at a detection labelled \<^verbatim>\<open>face_shield\<close> and at
  one labelled \<^verbatim>\<open>constructor\<close>.
\<close>

theorem annotation_painted_witness:
  "painted (drawBoundingBox sampleBrowser (newCanvas 300 150) shieldDetection) =
     [PaintStrokeRect 10 10 50 60 ''#4a5568'' 3,
      PaintFillRect 10 (-15) 129 25 ''#4a5568'',
      PaintFillText ''face shield 90.0%'' 15 2 ''14px Arial'' ''white''] \<and>
   det_class shieldDetection \<notin> set classes \<and>
   det_class shieldDetection \<notin> set objectPrototypeKeys \<and>
   painted (drawBoundingBox sampleBrowser (newCanvas 300 150) constructorDetection) =
     [PaintStrokeRect 10 10 50 60 ''#000000'' 3,
      PaintFillRect 10 (-15) 129 25 ''#000000'',
      PaintFillText ''constructor 90.0%'' 15 2 ''14px Arial'' ''white''] \<and>
   det_class constructorDetection \<in> set objectPrototypeKeys"
  using annotation_painted [of sampleBrowser "newCanvas 300 150" shieldDetection "''#000000''"]
    annotation_painted [of sampleBrowser "newCanvas 300 150" constructorDetection "''#000000''"]
  by (simp add: shieldDetection_def constructorDetection_def sampleBrowser_def newCanvas_def
      labelOf_def toFixed1_def showNat.simps digitChar_def classes_def objectPrototypeKeys_def
      styleSet_def colorOf_def colorsLookup_def colors_def)

text \<open>
  C9 as it is written fails for the position of the chip: for a box whose top edge is
  at 100 the chip spans 75 to 100, so its bottom edge is on the top edge of the box
  and not 8 above it.
\<close>

theorem chip_bottom_on_box_top:
  "paintBottom (painted (drawBoundingBox sampleBrowser (newCanvas 300 150) maskedDetection) ! 1)
     \<noteq> paintTop (painted (drawBoundingBox sampleBrowser (newCanvas 300 150) maskedDetection) ! 0) - 8 \<and>
   painted (drawBoundingBox sampleBrowser (newCanvas 300 150) maskedDetection) =
     [PaintStrokeRect 10 100 50 60 ''#38a169'' 3,
      PaintFillRect 10 75 115 25 ''#38a169'',
      PaintFillText ''with mask 95.0%'' 15 92 ''14px Arial'' ''white'']"
  by (simp add: drawBoundingBox_def Let_def strokeRect_def fillRect_def fillText_def labelOf_def
      styleSet_def colorOf_def colorsLookup_def colors_def maskedDetection_def sampleBrowser_def
      newCanvas_def toFixed1_def showNat.simps digitChar_def)

section \<open>What the crop asks of the canvas\<close>

lemma length_croppedFacesFrom: "length (croppedFacesFrom br img index ds) = length ds"
  by (induction ds arbitrary: index) simp_all

lemma nth_croppedFacesFrom:
  "i < length ds \<Longrightarrow>
   croppedFacesFrom br img index ds ! i =
     \<lparr>fc_class = replaceFirst CHR ''_'' CHR ''-'' (det_class (ds ! i)),
      fc_src = toDataURL br (cropCanvas img (ds ! i)),
      fc_alt = ''Face '' @ showNat (index + i + 1),
      fc_badge = toFixed1 (confidence (ds ! i) * 100) @ ''%''\<rparr>"
proof (induction ds arbitrary: index i)
  case Nil
  then show ?case by simp
next
  case (Cons d ds)
  then show ?case by (cases i) simp_all
qed

text \<open>
  C8, as the code has it. For every image and every sequence of detections
  \<^verbatim>\<open>createCroppedFaces\<close> returns one block per detection, whose image is the data
  URL of a canvas made for that detection. The canvas has the width and the height of
  the box as it is, not of the box clipped to the image, and the one thing painted on
  it is the request to \<^verbatim>\<open>drawImage\<close> with the unclipped box as source rectangle
  and the whole canvas as destination. The function has no branch for a box that
  leaves the image or for a region of zero area, and no failing branch of its own;
  what is clipped, what is painted for a region outside the image and whether the call
  fails is left to the browser.
\<close>

theorem crop_passes_raw_box:
  "length (createCroppedFaces br img ds) = length ds \<and>
   (\<forall>i < length ds. fc_src (createCroppedFaces br img ds ! i) = toDataURL br (cropCanvas img (ds ! i))) \<and>
   cv_width (cropCanvas img d) = canvasLength (bbox_width (det_bbox d)) \<and>
   cv_height (cropCanvas img d) = canvasLength (bbox_height (det_bbox d)) \<and>
   painted (cropCanvas img d) =
     [PaintImageRegion img (bbox_x (det_bbox d)) (bbox_y (det_bbox d))
        (bbox_width (det_bbox d)) (bbox_height (det_bbox d))
        0 0 (bbox_width (det_bbox d)) (bbox_height (det_bbox d))]"
  by (simp add: createCroppedFaces_def length_croppedFacesFrom nth_croppedFacesFrom cropCanvas_def
      Let_def drawImageRegion_def newCanvas_def)

text \<open>The theorem at two boxes on the sample image, read at the second.\<close>

theorem crop_passes_raw_box_witness:
  "length (createCroppedFaces sampleBrowser sampleImage [edgeDetection, outsideDetection]) = 2 \<and>
   fc_src (createCroppedFaces sampleBrowser sampleImage [edgeDetection, outsideDetection] ! 1) =
     toDataURL sampleBrowser (cropCanvas sampleImage outsideDetection) \<and>
   cv_width (cropCanvas sampleImage outsideDetection) = 50 \<and>
   cv_height (cropCanvas sampleImage outsideDetection) = 50 \<and>
   painted (cropCanvas sampleImage outsideDetection) =
     [PaintImageRegion sampleImage 200 200 50 50 0 0 50 50]"
  using crop_passes_raw_box [of sampleBrowser sampleImage "[edgeDetection, outsideDetection]" outsideDetection]
  by (simp add: outsideDetection_def canvasLength_def)

text \<open>
  C8 as it is written fails where it says that the crop is the region clipped to the
  image. For the box of size 50 at (90, 90) on the 100 by 100 image the clipped region
  is 10 by 10, while the canvas is 50 wide and the rectangle asked of
  \<^verbatim>\<open>drawImage\<close> is the whole box; for the box at (200, 200), whose clipped
  region has no area, the function makes the same 50 wide canvas and the same request
  and no placeholder.
\<close>

theorem crop_is_not_clipped:
  "clippedRegion sampleImage (det_bbox edgeDetection) =
     \<lparr>bbox_x = 90, bbox_y = 90, bbox_width = 10, bbox_height = 10\<rparr> \<and>
   painted (cropCanvas sampleImage edgeDetection) =
     [PaintImageRegion sampleImage 90 90 50 50 0 0 50 50] \<and>
   cv_width (cropCanvas sampleImage edgeDetection) \<noteq>
     canvasLength (bbox_width (clippedRegion sampleImage (det_bbox edgeDetection))) \<and>
   bbox_width (clippedRegion sampleImage (det_bbox outsideDetection)) = 0 \<and>
   painted (cropCanvas sampleImage outsideDetection) =
     [PaintImageRegion sampleImage 200 200 50 50 0 0 50 50] \<and>
   cv_width (cropCanvas sampleImage outsideDetection) = 50"
  by (simp add: clippedRegion_def cropCanvas_def Let_def drawImageRegion_def newCanvas_def
      canvasLength_def sampleImage_def edgeDetection_def outsideDetection_def)

section \<open>The countdown to a capture\<close>

lemma run_Nil: "run [] pg = pg"
  by (simp add: run_def)

lemma run_Cons: "run (e # evs) pg = run evs (step e pg)"
  by (simp add: run_def)

lemma run_append: "run (xs @ ys) pg = run ys (run xs pg)"
  by (simp add: run_def)

lemma tick_counting:
  assumes "counting h c n r pg" and "0 < c"
  shows "counting h (c - 1) n r (intervalFires h pg)"
  using assms by (simp add: counting_def intervalFires_def updateCountdown_def Let_def)

lemma tick_fires:
  assumes "counting h c n r pg" and "c \<le> 0"
  shows "fired n (r + 1) (intervalFires h pg)"
  using assms
  by (simp add: counting_def fired_def intervalFires_def updateCountdown_def Let_def
      clearInterval_def captureMonitoringPhoto_def)

lemma tick_fired:
  assumes "fired n r pg"
  shows "intervalFires h pg = pg"
  using assms by (simp add: fired_def intervalFires_def)

lemma start_counting:
  assumes "\<not> monitoringActive pg" and "intervals pg = []" and "timeouts pg = []"
    and "nextTimerId pg \<noteq> 0" and "monitoringInterval pg = None" and "0 < n"
  shows "counting (nextTimerId pg) (n - 1) n (captureRequests pg)
           (startMonitoringResumed None n (startMonitoring pg))"
  using assms
  by (simp add: counting_def startMonitoring_def startMonitoringResumed_def
      scheduleNextCapture_def updateCountdown_def Let_def showAlert_def)

lemma counting_run:
  assumes "counting h c n r pg" and "int k \<le> c"
  shows "counting h (c - int k) n r (run (replicate k (IntervalFires h)) pg)"
  using assms
proof (induction k arbitrary: pg c)
  case 0
  then show ?case by (simp add: run_Nil)
next
  case (Suc k)
  from Suc.prems have pos: "0 < c" by simp
  have "counting h (c - 1) n r (intervalFires h pg)"
    using Suc.prems(1) pos by (rule tick_counting)
  moreover from Suc.prems have "int k \<le> c - 1" by simp
  ultimately have "counting h (c - 1 - int k) n r (run (replicate k (IntervalFires h)) (intervalFires h pg))"
    by (rule Suc.IH)
  then show ?case by (simp add: run_Cons algebra_simps)
qed

lemma fired_run:
  assumes "fired n r pg"
  shows "run (replicate k (IntervalFires h)) pg = pg"
  using assms by (induction k) (simp_all add: run_Nil run_Cons tick_fired)

lemma replicate_split: "j \<le> k \<Longrightarrow> replicate k e = replicate j e @ replicate (k - j) e"
  by (simp add: replicate_add [symmetric])

lemma counting_fires_run:
  assumes "counting h c n r pg" and "0 \<le> c" and "nat c < k"
  shows "fired n (r + 1) (run (replicate k (IntervalFires h)) pg)"
proof -
  have le: "int (nat c) \<le> c" using assms(2) by simp
  have z: "counting h 0 n r (run (replicate (nat c) (IntervalFires h)) pg)"
    using counting_run [OF assms(1) le] assms(2) by simp
  have f: "fired n (r + 1) (intervalFires h (run (replicate (nat c) (IntervalFires h)) pg))"
    using z by (rule tick_fires) simp
  have "replicate k (IntervalFires h) =
          replicate (nat c) (IntervalFires h) @ IntervalFires h # replicate (k - nat c - 1) (IntervalFires h)"
    using assms(3) replicate_split [of "nat c" k "IntervalFires h"]
    by (cases "k - nat c") simp_all
  then have "run (replicate k (IntervalFires h)) pg =
          run (replicate (k - nat c - 1) (IntervalFires h))
            (intervalFires h (run (replicate (nat c) (IntervalFires h)) pg))"
    by (simp add: run_append run_Cons)
  then show ?thesis using f fired_run [OF f] by simp
qed

lemma stop_counting:
  assumes "counting h c n r pg"
  shows "quiet (stopMonitoring pg) \<and> captureRequests (stopMonitoring pg) = r"
  using assms
  by (simp add: counting_def quiet_def stopMonitoring_def Let_def truthyHandle_def
      clearInterval_def showAlert_def)

lemma quiet_step:
  assumes "quiet pg" and "startsNothing e"
  shows "quiet (step e pg) \<and> captureRequests (step e pg) = captureRequests pg"
  using assms
  by (cases e)
    (auto simp add: quiet_def intervalFires_def timeoutFires_def stopMonitoring_def Let_def
      truthyHandle_def clearInterval_def showAlert_def split: option.splits)

lemma quiet_run:
  assumes "quiet pg" and "list_all startsNothing evs"
  shows "captureRequests (run evs pg) = captureRequests pg"
  using assms
proof (induction evs arbitrary: pg)
  case Nil
  then show ?case by (simp add: run_Nil)
next
  case (Cons e evs)
  then show ?case using quiet_step [of pg e] by (simp add: run_Cons)
qed

text \<open>
  On a page that is not monitoring and holds no timer of an earlier session, a start
  with interval 30 behaves as C7 says: the snapshot is taken at the 30th firing of
  the countdown and at no other, and after a stop that comes earlier no timer event
  takes one.
\<close>

lemma fresh_page_interval_30:
  assumes "\<not> monitoringActive pg" and "intervals pg = []" and "timeouts pg = []"
    and "nextTimerId pg \<noteq> 0" and "monitoringInterval pg = None"
    and "list_all startsNothing evs"
  shows "captureRequests (run (replicate k (IntervalFires (nextTimerId pg))) (startMonitoringResumed None 30 (startMonitoring pg))) =
           (if k < 30 then captureRequests pg else captureRequests pg + 1) \<and>
         (k < 30 \<longrightarrow>
            captureRequests
              (run (replicate k (IntervalFires (nextTimerId pg)) @ StopMonitoring # evs)
                 (startMonitoringResumed None 30 (startMonitoring pg))) = captureRequests pg)"
proof -
  let ?h = "nextTimerId pg"
  let ?s = "startMonitoringResumed None 30 (startMonitoring pg)"
  have s: "counting ?h 29 30 (captureRequests pg) ?s"
    using start_counting [OF assms(1-5), of 30] by simp
  have before: "counting ?h (29 - int k) 30 (captureRequests pg) (run (replicate k (IntervalFires ?h)) ?s)"
    if "k < 30"
    using that by (intro counting_run [OF s]) simp
  have after: "fired 30 (captureRequests pg + 1) (run (replicate k (IntervalFires ?h)) ?s)"
    if "\<not> k < 30"
    using that by (intro counting_fires_run [OF s]) simp_all
  have stopped: "captureRequests (run (replicate k (IntervalFires ?h) @ StopMonitoring # evs) ?s)
                   = captureRequests pg"
    if "k < 30"
    using stop_counting [OF before [OF that]] quiet_run [OF _ assms(6)]
    by (simp add: run_append run_Cons)
  show ?thesis
    using before after stopped by (auto simp add: counting_def fired_def)
qed

text \<open>
  C7 on a page that has monitored before. \<^verbatim>\<open>stopMonitoring\<close> clears the countdown
  but not the timeout that \<^verbatim>\<open>updateCountdown\<close> sets for the next round, so a
  first session stopped right after its snapshot leaves that timeout pending. When
  monitoring is started again before it fires, it starts a second countdown beside
  the new one. The new session then takes its snapshot after 30 seconds and another
  one a second later, where C7 asks for exactly one. Stopped after 29 seconds it has
  taken none, but one of its two timers survives the stop, and a third session stopped
  one second after its start has taken a snapshot, where C7 asks for none.
\<close>

theorem restart_in_delay_captures:
  "captureRequests (run firstSession freshPage) = 1 \<and>
   timeouts (run firstSession freshPage) = [30] \<and>
   captureRequests (run (firstSession @ restartInDelay @ timersTick [2, 3] 30) freshPage) = 2 \<and>
   captureRequests (run (firstSession @ restartInDelay @ timersTick [2, 3] 31) freshPage) = 3 \<and>
   captureRequests (run (firstSession @ restartInDelay @ timersTick [2, 3] 29 @ [StopMonitoring]) freshPage) = 1 \<and>
   captureRequests
     (run (firstSession @ restartInDelay @ timersTick [2, 3] 29 @
             [StopMonitoring, StartMonitoring, CameraAnswers None 30, IntervalFires 2, StopMonitoring])
        freshPage) = 2"
  by code_simp

text \<open>
  Two starts before the camera answers pass the test of \<^verbatim>\<open>monitoringActive\<close>
  both and start two countdowns on a fresh page; the snapshot at 30 seconds is
  followed by another a second later.
\<close>

lemma double_start_captures:
  "intervals (run doubleStart freshPage) = [(1, 29, 30), (2, 29, 30)] \<and>
   captureRequests (run (doubleStart @ timersTick [1, 2] 30) freshPage) = 1 \<and>
   captureRequests (run (doubleStart @ timersTick [1, 2] 31) freshPage) = 2"
  by code_simp

section \<open>Export in an unknown format\<close>

text \<open>
  C10. For every format argument other than \<^verbatim>\<open>json\<close> and \<^verbatim>\<open>csv\<close>,
  \<^verbatim>\<open>downloadResults\<close> does not reject the format: the content, the file name and
  the MIME type stay \<^verbatim>\<open>undefined\<close>, and a blob made from the undefined content
  is downloaded all the same and announced as \<^verbatim>\<open>undefined\<close>. The one error the
  function can end with is the type error of reading a settings control the page does
  not have, which does not depend on the format.
\<close>

theorem unknown_format_still_downloads:
  assumes "fmt \<noteq> ''json''" and "fmt \<noteq> ''csv''"
  shows "downloadResults (Some fmt) now now' pg =
           (if intervalSelect pg = None \<or> soundAlerts pg = None then Inl TypeError
            else Inr (pg\<lparr>alertBadge := Some (''Results exported as undefined'', ''success''),
                       effects := effects pg @
                         [DownloadBlob None None None,
                          ShowAlert ''Results exported as undefined'' ''success'']\<rparr>))"
  using assms by (simp add: downloadResults_def showAlert_def split: option.split)

text \<open>The theorem at the format \<^verbatim>\<open>xml\<close> on a fresh page.\<close>

theorem unknown_format_still_downloads_witness:
  "''xml'' \<noteq> ''json'' \<and> ''xml'' \<noteq> ''csv'' \<and>
   downloadResults (Some ''xml'') ''2026-01-01T00:00:00.000Z'' ''2026-01-01T00:00:00.000Z''
       (initialPage (Some True) (Some ''30'')) =
     Inr ((initialPage (Some True) (Some ''30''))
            \<lparr>alertBadge := Some (''Results exported as undefined'', ''success''),
             effects :=
               [DownloadBlob None None None,
                ShowAlert ''Results exported as undefined'' ''success'']\<rparr>)"
  using unknown_format_still_downloads [of "''xml''" "''2026-01-01T00:00:00.000Z''"
      "''2026-01-01T00:00:00.000Z''" "initialPage (Some True) (Some ''30'')"]
  by (simp add: initialPage_def)

end
